theory Spec2Isabelle
  imports Complex_Main
begin

section \<open>Tensors\<close>

text \<open>
  The training code handles batches of images as rank-4 tensors: \<open>(batch, height, width,
  channel)\<close> in the channel-last layout, \<open>(batch, channel, height, width)\<close> in the
  channel-first layout selected by \<open>use_gpu\<close>. A tensor is its four dimensions and its
  entries. Entries are real numbers: rounding, overflow and the infinities of
  floating-point arithmetic are outside this development. The one special value kept is
  \<open>NaN\<close>, which the tensor library returns for the mean over an empty axis.
\<close>

record tensor =
  dim0 :: nat
  dim1 :: nat
  dim2 :: nat
  dim3 :: nat
  elem :: "nat \<Rightarrow> nat \<Rightarrow> nat \<Rightarrow> nat \<Rightarrow> real"

definition shape :: "tensor \<Rightarrow> nat \<times> nat \<times> nat \<times> nat" where
  "shape t = (dim0 t, dim1 t, dim2 t, dim3 t)"

definition ones_like :: "tensor \<Rightarrow> tensor" where
  "ones_like t = t\<lparr>elem := \<lambda>a b c d. 1\<rparr>"

definition zeros_like :: "tensor \<Rightarrow> tensor" where
  "zeros_like t = t\<lparr>elem := \<lambda>a b c d. 0\<rparr>"

definition fill :: "nat \<times> nat \<times> nat \<times> nat \<Rightarrow> real \<Rightarrow> tensor" where
  "fill dims v =
     (case dims of (n0, n1, n2, n3) \<Rightarrow>
        \<lparr>dim0 = n0, dim1 = n1, dim2 = n2, dim3 = n3, elem = (\<lambda>a b c d. v)\<rparr>)"

text \<open>
  \<open>tf.transpose(x, perm)\<close>: axis \<open>k\<close> of the result is axis \<open>perm[k]\<close> of \<open>x\<close>.
\<close>

definition axis_dim :: "tensor \<Rightarrow> int \<Rightarrow> nat" where
  "axis_dim t k = (if k = 0 then dim0 t else if k = 1 then dim1 t
                   else if k = 2 then dim2 t else dim3 t)"

definition transpose_t :: "tensor \<Rightarrow> int \<times> int \<times> int \<times> int \<Rightarrow> tensor" where
  "transpose_t t perm =
     (case perm of (p0, p1, p2, p3) \<Rightarrow>
        \<lparr>dim0 = axis_dim t p0, dim1 = axis_dim t p1,
         dim2 = axis_dim t p2, dim3 = axis_dim t p3,
         elem = (\<lambda>i0 i1 i2 i3.
           let src = (\<lambda>ax :: int. if ax = p0 then i0 else if ax = p1 then i1
                            else if ax = p2 then i2 else i3)
           in elem t (src 0) (src 1) (src 2) (src 3))\<rparr>)"

subsection \<open>Slicing\<close>

text \<open>
  A slice \<open>start:stop\<close> with step 1; either bound may be absent. A negative bound counts
  from the end of the axis, and a bound outside the axis is clamped to it, so a slice
  never fails: it may be empty.
\<close>

type_synonym py_slice = "int option \<times> int option"

definition full :: py_slice where
  "full = (None, None)"

definition slice_bound :: "nat \<Rightarrow> int \<Rightarrow> nat" where
  "slice_bound n i = (if i < 0 then nat (max 0 (int n + i)) else min n (nat i))"

definition slice_start :: "nat \<Rightarrow> py_slice \<Rightarrow> nat" where
  "slice_start n s = (case fst s of None \<Rightarrow> 0 | Some i \<Rightarrow> slice_bound n i)"

definition slice_stop :: "nat \<Rightarrow> py_slice \<Rightarrow> nat" where
  "slice_stop n s = (case snd s of None \<Rightarrow> n | Some i \<Rightarrow> slice_bound n i)"

definition slice_len :: "nat \<Rightarrow> py_slice \<Rightarrow> nat" where
  "slice_len n s = slice_stop n s - slice_start n s"

definition getitem :: "tensor \<Rightarrow> py_slice \<Rightarrow> py_slice \<Rightarrow> py_slice \<Rightarrow> py_slice \<Rightarrow> tensor" where
  "getitem t s0 s1 s2 s3 =
     \<lparr>dim0 = slice_len (dim0 t) s0, dim1 = slice_len (dim1 t) s1,
      dim2 = slice_len (dim2 t) s2, dim3 = slice_len (dim3 t) s3,
      elem = (\<lambda>a b c d. elem t (slice_start (dim0 t) s0 + a) (slice_start (dim1 t) s1 + b)
                                (slice_start (dim2 t) s2 + c) (slice_start (dim3 t) s3 + d))\<rparr>"

section \<open>Scalars\<close>

text \<open>
  A loss is a scalar of the tensor library: a number or \<open>NaN\<close>. Sums and products
  with \<open>NaN\<close> are \<open>NaN\<close>; \<open>scalar_div\<close> divides by a batch count, and
  \<open>scalar_sum\<close> adds up a list of scalars.
\<close>

datatype scalar = Num real | NaN

fun scalar_add :: "scalar \<Rightarrow> scalar \<Rightarrow> scalar" where
  "scalar_add (Num x) (Num y) = Num (x + y)"
| "scalar_add (Num x) NaN = NaN"
| "scalar_add NaN y = NaN"

fun scalar_mul :: "scalar \<Rightarrow> scalar \<Rightarrow> scalar" where
  "scalar_mul (Num x) (Num y) = Num (x * y)"
| "scalar_mul (Num x) NaN = NaN"
| "scalar_mul NaN y = NaN"

fun scalar_div :: "scalar \<Rightarrow> nat \<Rightarrow> scalar" where
  "scalar_div (Num x) n = Num (x / real n)"
| "scalar_div NaN n = NaN"

fun scalar_sum :: "scalar list \<Rightarrow> scalar" where
  "scalar_sum [] = Num 0"
| "scalar_sum (x # xs) = scalar_add x (scalar_sum xs)"

section \<open>Loss functions\<close>

text \<open>
  The two loss objects built at module scope. Both reduce with \<open>SUM_OVER_BATCH_SIZE\<close>:
  the element-wise loss is averaged over the last axis, which gives one loss per
  sample, and the per-sample losses are summed and divided by their number. The mean
  over the last axis is \<open>NaN\<close> when that axis is empty, and so is then the result,
  unless there is no per-sample loss at all: the sum of none is \<open>0\<close>, and the
  division by their number is one that returns \<open>0\<close> for the number \<open>0\<close>. Both
  losses are read at the dimensions of \<open>y_pred\<close>: the code only ever passes two
  tensors of one shape, and the broadcasting of unequal shapes is not modelled.
\<close>

definition empty_last :: "tensor \<Rightarrow> bool" where
  "empty_last t = (dim3 t = 0 \<and> dim0 t * dim1 t * dim2 t \<noteq> 0)"

definition reduce_value :: "tensor \<Rightarrow> (nat \<Rightarrow> nat \<Rightarrow> nat \<Rightarrow> nat \<Rightarrow> real) \<Rightarrow> real" where
  "reduce_value t f =
     (\<Sum>a<dim0 t. \<Sum>b<dim1 t. \<Sum>c<dim2 t. (\<Sum>d<dim3 t. f a b c d) / real (dim3 t))
       / real (dim0 t * dim1 t * dim2 t)"

definition reduce_losses :: "tensor \<Rightarrow> (nat \<Rightarrow> nat \<Rightarrow> nat \<Rightarrow> nat \<Rightarrow> real) \<Rightarrow> scalar" where
  "reduce_losses t f = (if empty_last t then NaN else Num (reduce_value t f))"

text \<open>
  Binary cross-entropy of a logit \<open>x\<close> against a label \<open>z\<close>, in the form that does not
  overflow (\<open>from_logits=True\<close>).
\<close>

definition logit_cross_entropy :: "real \<Rightarrow> real \<Rightarrow> real" where
  "logit_cross_entropy z x = max x 0 - x * z + ln (1 + exp (- \<bar>x\<bar>))"

definition cross_entropy :: "tensor \<Rightarrow> tensor \<Rightarrow> scalar" where
  "cross_entropy y_true y_pred =
     reduce_losses y_pred (\<lambda>a b c d. logit_cross_entropy (elem y_true a b c d) (elem y_pred a b c d))"

definition MSE :: "tensor \<Rightarrow> tensor \<Rightarrow> scalar" where
  "MSE y_true y_pred =
     reduce_losses y_pred (\<lambda>a b c d. (elem y_pred a b c d - elem y_true a b c d)\<^sup>2)"

definition discriminator_loss :: "tensor \<Rightarrow> tensor \<Rightarrow> scalar" where
  "discriminator_loss real_output fake_output =
     (let real_loss = cross_entropy (ones_like real_output) real_output;
          fake_loss = cross_entropy (zeros_like fake_output) fake_output;
          total_loss = scalar_add real_loss fake_loss
      in total_loss)"

definition generator_loss_w ::
  "tensor \<Rightarrow> tensor \<Rightarrow> tensor \<Rightarrow> int \<Rightarrow> bool \<Rightarrow> real \<Rightarrow> real \<Rightarrow> scalar" where
  "generator_loss_w fake_output y_true y_pred overlap use_gpu weight_l2 weight_adv =
     (let adv_loss = cross_entropy (ones_like fake_output) fake_output;
          inner = (Some overlap, Some (- overlap));
          head = (None, Some overlap);
          tail = (Some (- overlap), None);
          l2_loss =
            (if overlap \<noteq> 0 then
               (if use_gpu then
                  (let y_true_center = getitem y_true full full inner inner;
                       y_pred_center = getitem y_pred full full inner inner;
                       y_true_overlap_left = getitem y_true full full head head;
                       y_true_overlap_right = getitem y_true full full tail tail;
                       y_pred_overlap_left = getitem y_pred full full head head;
                       y_pred_overlap_right = getitem y_pred full full tail tail;
                       center_loss = MSE y_true_center y_pred_center;
                       overlap_loss = scalar_mul (Num 10)
                         (scalar_add (MSE y_true_overlap_left y_pred_overlap_left)
                                     (MSE y_true_overlap_right y_pred_overlap_right))
                   in scalar_add center_loss overlap_loss)
                else
                  (let y_true_center = getitem y_true full inner inner full;
                       y_pred_center = getitem y_pred full inner inner full;
                       y_true_overlap_left = getitem y_true full head head full;
                       y_true_overlap_right = getitem y_true full tail tail full;
                       y_pred_overlap_left = getitem y_pred full head head full;
                       y_pred_overlap_right = getitem y_pred full tail tail full;
                       center_loss = MSE y_true_center y_pred_center;
                       overlap_loss = scalar_mul (Num 10)
                         (scalar_add (MSE y_true_overlap_left y_pred_overlap_left)
                                     (MSE y_true_overlap_right y_pred_overlap_right))
                   in scalar_add center_loss overlap_loss))
             else MSE y_true y_pred)
      in scalar_add (scalar_mul (Num weight_l2) l2_loss) (scalar_mul (Num weight_adv) adv_loss))"

text \<open>The default weights: every call in the program leaves them out.\<close>

definition generator_loss :: "tensor \<Rightarrow> tensor \<Rightarrow> tensor \<Rightarrow> int \<Rightarrow> bool \<Rightarrow> scalar" where
  "generator_loss fake_output y_true y_pred overlap use_gpu =
     generator_loss_w fake_output y_true y_pred overlap use_gpu (9 / 10) (1 / 10)"

subsection \<open>Reference formulations of the losses\<close>

text \<open>The number that a loss object returns when it does not return \<open>NaN\<close>.\<close>

definition mse_value :: "tensor \<Rightarrow> tensor \<Rightarrow> real" where
  "mse_value y_true y_pred =
     reduce_value y_pred (\<lambda>a b c d. (elem y_pred a b c d - elem y_true a b c d)\<^sup>2)"

definition cross_entropy_value :: "tensor \<Rightarrow> tensor \<Rightarrow> real" where
  "cross_entropy_value y_true y_pred =
     reduce_value y_pred
       (\<lambda>a b c d. logit_cross_entropy (elem y_true a b c d) (elem y_pred a b c d))"

text \<open>
  The textbook binary cross-entropy of a logit \<open>x\<close> against a label \<open>z\<close>, through the
  sigmoid, and its mean over all entries of a tensor of logits.
\<close>

definition sigmoid :: "real \<Rightarrow> real" where
  "sigmoid x = 1 / (1 + exp (- x))"

definition binary_cross_entropy :: "real \<Rightarrow> real \<Rightarrow> real" where
  "binary_cross_entropy z x = - (z * ln (sigmoid x) + (1 - z) * ln (1 - sigmoid x))"

definition batch_mean_bce :: "real \<Rightarrow> tensor \<Rightarrow> real" where
  "batch_mean_bce z t =
     (\<Sum>a<dim0 t. \<Sum>b<dim1 t. \<Sum>c<dim2 t. \<Sum>d<dim3 t. binary_cross_entropy z (elem t a b c d))
       / real (dim0 t * dim1 t * dim2 t * dim3 t)"

text \<open>A batch holding one logit, as the discriminator returns it for one sample.\<close>

definition logits :: "real \<Rightarrow> tensor" where
  "logits x = fill (1, 1, 1, 1) x"

text \<open>
  Pixels are addressed by batch index, row, column and channel whatever the layout.
  A region is a set of rows and a set of columns; \<open>region_mse\<close> is the mean of the
  squared differences over the pixels of a region, all samples and all channels.
\<close>

definition px :: "bool \<Rightarrow> tensor \<Rightarrow> nat \<Rightarrow> nat \<Rightarrow> nat \<Rightarrow> nat \<Rightarrow> real" where
  "px use_gpu t b i j c = (if use_gpu then elem t b c i j else elem t b i j c)"

definition height :: "bool \<Rightarrow> tensor \<Rightarrow> nat" where
  "height use_gpu t = (if use_gpu then dim2 t else dim1 t)"

definition width :: "bool \<Rightarrow> tensor \<Rightarrow> nat" where
  "width use_gpu t = (if use_gpu then dim3 t else dim2 t)"

definition channels :: "bool \<Rightarrow> tensor \<Rightarrow> nat" where
  "channels use_gpu t = (if use_gpu then dim1 t else dim3 t)"

type_synonym region = "nat set \<times> nat set"

definition pixels :: "region \<Rightarrow> (nat \<times> nat) set" where
  "pixels r = fst r \<times> snd r"

definition whole :: "nat \<Rightarrow> nat \<Rightarrow> region" where
  "whole h w = ({..<h}, {..<w})"

definition center :: "nat \<Rightarrow> nat \<Rightarrow> nat \<Rightarrow> region" where
  "center h w ov = ({ov..<h - ov}, {ov..<w - ov})"

definition left_square :: "nat \<Rightarrow> region" where
  "left_square ov = ({..<ov}, {..<ov})"

definition right_square :: "nat \<Rightarrow> nat \<Rightarrow> nat \<Rightarrow> region" where
  "right_square h w ov = ({h - ov..<h}, {w - ov..<w})"

definition region_mse :: "bool \<Rightarrow> tensor \<Rightarrow> tensor \<Rightarrow> region \<Rightarrow> real" where
  "region_mse use_gpu y_true y_pred r =
     (\<Sum>b<dim0 y_pred. \<Sum>i\<in>fst r. \<Sum>j\<in>snd r. \<Sum>c<channels use_gpu y_pred.
         (px use_gpu y_pred b i j c - px use_gpu y_true b i j c)\<^sup>2)
       / real (dim0 y_pred * card (fst r) * card (snd r) * channels use_gpu y_pred)"

section \<open>Models and optimizers\<close>

text \<open>
  Modelled from the spec: the module \<open>model\<close> (\<open>build_autoencoder\<close>,
  \<open>build_discriminator\<close>) is not among the sources. A model is an opaque function
  object: its trainable variables, the state of its layers that no gradient reaches
  (moving statistics, random seeds), a forward pass that depends on the training-mode
  flag, and the change a training-mode pass makes to the layer state. A forward pass in
  inference mode leaves the model as it is.
\<close>

record ('p, 'q) model =
  trainable_variables :: 'p
  layer_state :: 'q
  forward :: "bool \<Rightarrow> 'p \<Rightarrow> 'q \<Rightarrow> tensor \<Rightarrow> tensor"
  advance :: "'p \<Rightarrow> 'q \<Rightarrow> tensor \<Rightarrow> 'q"

definition call_model :: "('p, 'q) model \<Rightarrow> tensor \<Rightarrow> bool \<Rightarrow> tensor \<times> ('p, 'q) model" where
  "call_model m x training =
     (forward m training (trainable_variables m) (layer_state m) x,
      if training
      then m\<lparr>layer_state := advance m (trainable_variables m) (layer_state m) x\<rparr>
      else m)"

text \<open>
  An optimizer of the tensor library: its learning rate, the number of updates it has
  applied, its moment estimates, and its update rule, which is left open. \<open>Adam\<close>
  builds a fresh one from a learning rate.
\<close>

record ('p, 's) optimizer =
  learning_rate :: real
  iterations :: nat
  slots :: 's
  update_rule :: "real \<Rightarrow> nat \<Rightarrow> 's \<Rightarrow> 'p \<Rightarrow> 'p \<Rightarrow> 's \<times> 'p"

definition Adam ::
  "(real \<Rightarrow> nat \<Rightarrow> 's \<Rightarrow> 'p \<Rightarrow> 'p \<Rightarrow> 's \<times> 'p) \<Rightarrow> 's \<Rightarrow> real \<Rightarrow> ('p, 's) optimizer" where
  "Adam rule empty_slots lr =
     \<lparr>learning_rate = lr, iterations = 0, slots = empty_slots, update_rule = rule\<rparr>"

definition apply_gradients ::
  "('p, 's) optimizer \<Rightarrow> 'p \<Rightarrow> ('p, 'q) model \<Rightarrow> ('p, 's) optimizer \<times> ('p, 'q) model" where
  "apply_gradients opt grads m =
     (case update_rule opt (learning_rate opt) (iterations opt) (slots opt) grads
             (trainable_variables m) of
        (s, p) \<Rightarrow> (opt\<lparr>iterations := Suc (iterations opt), slots := s\<rparr>,
                   m\<lparr>trainable_variables := p\<rparr>))"

text \<open>
  The two models and the two optimizers of a training run. The calls made on them are
  recorded in order, so that the order of forward passes and updates can be stated.
\<close>

datatype call =
    Call_generator bool
  | Call_discriminator bool
  | Apply_generator_gradients
  | Apply_discriminator_gradients

record ('p, 'q, 's) nets =
  generator :: "('p, 'q) model"
  discriminator :: "('p, 'q) model"
  generator_optimizer :: "('p, 's) optimizer"
  discriminator_optimizer :: "('p, 's) optimizer"
  calls :: "call list"

definition call_generator ::
  "tensor \<Rightarrow> bool \<Rightarrow> ('p, 'q, 's) nets \<Rightarrow> tensor \<times> ('p, 'q, 's) nets" where
  "call_generator x training st =
     (case call_model (generator st) x training of
        (y, g) \<Rightarrow> (y, st\<lparr>generator := g, calls := calls st @ [Call_generator training]\<rparr>))"

definition call_discriminator ::
  "tensor \<Rightarrow> bool \<Rightarrow> ('p, 'q, 's) nets \<Rightarrow> tensor \<times> ('p, 'q, 's) nets" where
  "call_discriminator x training st =
     (case call_model (discriminator st) x training of
        (y, d) \<Rightarrow> (y, st\<lparr>discriminator := d, calls := calls st @ [Call_discriminator training]\<rparr>))"

definition apply_generator_gradients :: "'p \<Rightarrow> ('p, 'q, 's) nets \<Rightarrow> ('p, 'q, 's) nets" where
  "apply_generator_gradients grads st =
     (case apply_gradients (generator_optimizer st) grads (generator st) of
        (opt, g) \<Rightarrow> st\<lparr>generator := g, generator_optimizer := opt,
                       calls := calls st @ [Apply_generator_gradients]\<rparr>)"

definition apply_discriminator_gradients :: "'p \<Rightarrow> ('p, 'q, 's) nets \<Rightarrow> ('p, 'q, 's) nets" where
  "apply_discriminator_gradients grads st =
     (case apply_gradients (discriminator_optimizer st) grads (discriminator st) of
        (opt, d) \<Rightarrow> st\<lparr>discriminator := d, discriminator_optimizer := opt,
                       calls := calls st @ [Apply_discriminator_gradients]\<rparr>)"

section \<open>The training step and the evaluation step\<close>

text \<open>
  \<open>take_step\<close>. The gradient of a tape is the gradient of the loss it recorded, as a
  function of the trainable variables of one model, everything else held fixed;
  \<open>gradient\<close> stands for the automatic differentiation of the tensor library.
\<close>

definition take_step ::
  "(('p \<Rightarrow> scalar) \<Rightarrow> 'p \<Rightarrow> 'p) \<Rightarrow> tensor \<Rightarrow> tensor \<Rightarrow> int \<Rightarrow> bool \<Rightarrow> ('p, 'q, 's) nets
     \<Rightarrow> (scalar \<times> scalar) \<times> ('p, 'q, 's) nets" where
  "take_step gradient images real_centers overlap use_gpu st0 =
     (case call_discriminator real_centers True st0 of (real_output, st1) \<Rightarrow>
      case call_generator images False st1 of (generated_centers, st2) \<Rightarrow>
      case call_discriminator generated_centers True st2 of (fake_output, st3) \<Rightarrow>
      let disc_loss = discriminator_loss real_output fake_output;
          disc_tape = (\<lambda>v. discriminator_loss
             (forward (discriminator st0) True v (layer_state (discriminator st0)) real_centers)
             (forward (discriminator st2) True v (layer_state (discriminator st2))
                generated_centers));
          discriminator_grads = gradient disc_tape (trainable_variables (discriminator st3));
          st4 = apply_discriminator_gradients discriminator_grads st3
      in case call_generator images True st4 of (generated_centers', st5) \<Rightarrow>
      let gen_loss = generator_loss fake_output real_centers generated_centers' overlap use_gpu;
          gen_tape = (\<lambda>v. generator_loss fake_output real_centers
             (forward (generator st4) True v (layer_state (generator st4)) images)
             overlap use_gpu);
          generator_grads = gradient gen_tape (trainable_variables (generator st5));
          st6 = apply_generator_gradients generator_grads st5
      in ((gen_loss, disc_loss), st6))"

definition calc_losses ::
  "tensor \<Rightarrow> tensor \<Rightarrow> int \<Rightarrow> bool \<Rightarrow> ('p, 'q, 's) nets \<Rightarrow> (scalar \<times> scalar) \<times> ('p, 'q, 's) nets" where
  "calc_losses images real_centers overlap use_gpu st0 =
     (case call_generator images False st0 of (generated_centers, st1) \<Rightarrow>
      case call_discriminator real_centers False st1 of (real_output, st2) \<Rightarrow>
      case call_discriminator generated_centers False st2 of (fake_output, st3) \<Rightarrow>
      let disc_loss = discriminator_loss real_output fake_output;
          gen_loss = generator_loss fake_output real_centers generated_centers overlap use_gpu
      in ((gen_loss, disc_loss), st3))"

section \<open>The epoch loop\<close>

text \<open>
  What the trainer writes: the sample pictures of a split (\<open>train\<close> or \<open>val\<close>), a
  checkpoint, the final plot of the loss histories. Each write is logged with the epoch
  index at which it happens. Whether a write succeeds is decided by the outside world,
  here a predicate \<open>io_ok\<close>; a write that fails raises. File names (and with them the
  arguments \<open>shuffle\<close> and \<open>save_dir\<close>), the timing and the printed lines are left out.
\<close>

datatype action = Save_pictures string | Checkpoint_save | Plot_loss

datatype error = ZeroDivisionError | UnboundLocalError | OSError nat action

text \<open>
  The state of \<open>train\<close>: the models and optimizers (of any type \<open>'n\<close>, so that the
  two executors can be replaced by stubs), the loop variables \<open>image_batch\<close> and
  \<open>center_batch\<close>, which are unbound until a first batch has been read and which both
  loops assign, the four loss histories and the log of writes.
\<close>

record 'n trainer =
  networks :: 'n
  batch_vars :: "(tensor \<times> tensor) option"
  list_train_gen_loss :: "scalar list"
  list_train_disc_loss :: "scalar list"
  list_val_gen_loss :: "scalar list"
  list_val_disc_loss :: "scalar list"
  io_log :: "(nat \<times> action) list"

type_synonym 'n executor = "tensor \<Rightarrow> tensor \<Rightarrow> int \<Rightarrow> bool \<Rightarrow> 'n \<Rightarrow> (scalar \<times> scalar) \<times> 'n"

text \<open>
  One pass over a dataset, a list of batches: the body of both \<open>for\<close> loops. It
  carries the networks, the two running sums, the batch counter and the loop variables.
\<close>

fun for_batches ::
  "'n executor \<Rightarrow> int \<Rightarrow> bool \<Rightarrow> (tensor \<times> tensor) list
     \<Rightarrow> 'n \<Rightarrow> scalar \<Rightarrow> scalar \<Rightarrow> nat \<Rightarrow> (tensor \<times> tensor) option
     \<Rightarrow> 'n \<times> scalar \<times> scalar \<times> nat \<times> (tensor \<times> tensor) option" where
  "for_batches exec overlap use_gpu [] n gen_sum disc_sum count vars =
     (n, gen_sum, disc_sum, count, vars)"
| "for_batches exec overlap use_gpu (b # rest) n gen_sum disc_sum count vars =
     (let image_batch = (if use_gpu then transpose_t (fst b) (0, 3, 1, 2) else fst b);
          center_batch = (if use_gpu then transpose_t (snd b) (0, 3, 1, 2) else snd b)
      in case exec image_batch center_batch overlap use_gpu n of
           ((gen_loss, disc_loss), n') \<Rightarrow>
             for_batches exec overlap use_gpu rest n' (scalar_add gen_sum gen_loss)
               (scalar_add disc_sum disc_loss) (count + 1) (Some (image_batch, center_batch)))"

text \<open>
  The running sums start as the integer \<open>0\<close> and the counters too; a sum is still that
  integer when its counter is, so dividing by a counter that is \<open>0\<close> is an integer
  division by zero and raises. Once a loss has been added the sum is a scalar, and its
  division by the counter is a scalar.
\<close>

definition normalize :: "scalar \<Rightarrow> nat \<Rightarrow> error + scalar" where
  "normalize acc count = (if count = 0 then Inl ZeroDivisionError else Inr (scalar_div acc count))"

definition dump_due :: "nat \<Rightarrow> bool" where
  "dump_due epoch = ((epoch + 1) mod 5 = 0 \<or> epoch = 0)"

definition perform :: "(nat \<Rightarrow> action \<Rightarrow> bool) \<Rightarrow> nat \<Rightarrow> action \<Rightarrow> 'n trainer \<Rightarrow> error + 'n trainer" where
  "perform io_ok epoch a t =
     (if io_ok epoch a then Inr (t\<lparr>io_log := io_log t @ [(epoch, a)]\<rparr>)
      else Inl (OSError epoch a))"

text \<open>
  \<open>save_pictures\<close> reads the loop variables, runs the generator in inference mode and
  writes one picture file.
\<close>

definition save_pictures ::
  "(nat \<Rightarrow> action \<Rightarrow> bool) \<Rightarrow> nat \<Rightarrow> string \<Rightarrow> 'n trainer \<Rightarrow> error + 'n trainer" where
  "save_pictures io_ok epoch type t =
     (case batch_vars t of
        None \<Rightarrow> Inl UnboundLocalError
      | Some b \<Rightarrow> perform io_ok epoch (Save_pictures type) t)"

definition checkpoint_save :: "(nat \<Rightarrow> action \<Rightarrow> bool) \<Rightarrow> nat \<Rightarrow> 'n trainer \<Rightarrow> error + 'n trainer" where
  "checkpoint_save io_ok epoch t = perform io_ok epoch Checkpoint_save t"

definition run_epoch ::
  "'n executor \<Rightarrow> 'n executor \<Rightarrow> (nat \<Rightarrow> action \<Rightarrow> bool)
     \<Rightarrow> (tensor \<times> tensor) list \<Rightarrow> (tensor \<times> tensor) list \<Rightarrow> int \<Rightarrow> bool
     \<Rightarrow> nat \<Rightarrow> 'n trainer \<Rightarrow> error + 'n trainer" where
  "run_epoch step eval io_ok train_dataset val_dataset overlap use_gpu epoch t =
     (case for_batches step overlap use_gpu train_dataset (networks t) (Num 0) (Num 0) 0
             (batch_vars t) of
        (n1, train_gen_loss, train_disc_loss, count_train, vars1) \<Rightarrow>
      case (if dump_due epoch
            then save_pictures io_ok epoch ''train'' (t\<lparr>networks := n1, batch_vars := vars1\<rparr>)
            else Inr (t\<lparr>networks := n1, batch_vars := vars1\<rparr>)) of
        Inl e \<Rightarrow> Inl e
      | Inr t1 \<Rightarrow>
      case for_batches eval overlap use_gpu val_dataset (networks t1) (Num 0) (Num 0) 0
             (batch_vars t1) of
        (n2, val_gen_loss, val_disc_loss, count_val, vars2) \<Rightarrow>
      case (if dump_due epoch
            then (case checkpoint_save io_ok epoch (t1\<lparr>networks := n2, batch_vars := vars2\<rparr>) of
                    Inl e \<Rightarrow> Inl e
                  | Inr t' \<Rightarrow> save_pictures io_ok epoch ''val'' t')
            else Inr (t1\<lparr>networks := n2, batch_vars := vars2\<rparr>)) of
        Inl e \<Rightarrow> Inl e
      | Inr t2 \<Rightarrow>
      case normalize train_gen_loss count_train of Inl e \<Rightarrow> Inl e | Inr train_gen \<Rightarrow>
      case normalize train_disc_loss count_train of Inl e \<Rightarrow> Inl e | Inr train_disc \<Rightarrow>
      case normalize val_gen_loss count_val of Inl e \<Rightarrow> Inl e | Inr val_gen \<Rightarrow>
      case normalize val_disc_loss count_val of Inl e \<Rightarrow> Inl e | Inr val_disc \<Rightarrow>
        Inr (t2\<lparr>list_train_gen_loss := list_train_gen_loss t2 @ [train_gen],
                 list_train_disc_loss := list_train_disc_loss t2 @ [train_disc],
                 list_val_gen_loss := list_val_gen_loss t2 @ [val_gen],
                 list_val_disc_loss := list_val_disc_loss t2 @ [val_disc]\<rparr>))"

fun for_epochs ::
  "'n executor \<Rightarrow> 'n executor \<Rightarrow> (nat \<Rightarrow> action \<Rightarrow> bool)
     \<Rightarrow> (tensor \<times> tensor) list \<Rightarrow> (tensor \<times> tensor) list \<Rightarrow> int \<Rightarrow> bool
     \<Rightarrow> nat list \<Rightarrow> 'n trainer \<Rightarrow> error + 'n trainer" where
  "for_epochs step eval io_ok train_dataset val_dataset overlap use_gpu [] t = Inr t"
| "for_epochs step eval io_ok train_dataset val_dataset overlap use_gpu (epoch # rest) t =
     (case run_epoch step eval io_ok train_dataset val_dataset overlap use_gpu epoch t of
        Inl e \<Rightarrow> Inl e
      | Inr t' \<Rightarrow> for_epochs step eval io_ok train_dataset val_dataset overlap use_gpu rest t')"

text \<open>
  \<open>train\<close> with the two executors and the freshly built networks as parameters:
  the epochs \<open>range(epochs)\<close>, then the plot of the histories.
\<close>

definition train_loop ::
  "'n executor \<Rightarrow> 'n executor \<Rightarrow> (nat \<Rightarrow> action \<Rightarrow> bool)
     \<Rightarrow> (tensor \<times> tensor) list \<Rightarrow> (tensor \<times> tensor) list \<Rightarrow> int \<Rightarrow> int \<Rightarrow> bool
     \<Rightarrow> 'n \<Rightarrow> error + 'n trainer" where
  "train_loop step eval io_ok train_dataset val_dataset epochs overlap use_gpu n =
     (case for_epochs step eval io_ok train_dataset val_dataset overlap use_gpu
             [0..<nat epochs]
             \<lparr>networks = n, batch_vars = None,
              list_train_gen_loss = [], list_train_disc_loss = [],
              list_val_gen_loss = [], list_val_disc_loss = [], io_log = []\<rparr> of
        Inl e \<Rightarrow> Inl e
      | Inr t \<Rightarrow> perform io_ok (nat epochs) Plot_loss t)"

text \<open>
  The networks \<open>train\<close> starts from: the two models of the model provider and two
  Adam optimizers of their own.
\<close>

definition build_networks ::
  "(bool \<Rightarrow> ('p, 'q) model) \<Rightarrow> (bool \<Rightarrow> ('p, 'q) model)
     \<Rightarrow> (real \<Rightarrow> nat \<Rightarrow> 's \<Rightarrow> 'p \<Rightarrow> 'p \<Rightarrow> 's \<times> 'p) \<Rightarrow> 's \<Rightarrow> bool \<Rightarrow> real \<Rightarrow> ('p, 'q, 's) nets" where
  "build_networks build_autoencoder build_discriminator rule empty_slots use_gpu lr =
     \<lparr>generator = build_autoencoder use_gpu,
      discriminator = build_discriminator use_gpu,
      generator_optimizer = Adam rule empty_slots (lr * 10),
      discriminator_optimizer = Adam rule empty_slots lr,
      calls = []\<rparr>"

definition train ::
  "(('p \<Rightarrow> scalar) \<Rightarrow> 'p \<Rightarrow> 'p) \<Rightarrow> (bool \<Rightarrow> ('p, 'q) model) \<Rightarrow> (bool \<Rightarrow> ('p, 'q) model)
     \<Rightarrow> (real \<Rightarrow> nat \<Rightarrow> 's \<Rightarrow> 'p \<Rightarrow> 'p \<Rightarrow> 's \<times> 'p) \<Rightarrow> 's \<Rightarrow> (nat \<Rightarrow> action \<Rightarrow> bool)
     \<Rightarrow> (tensor \<times> tensor) list \<Rightarrow> (tensor \<times> tensor) list \<Rightarrow> int \<Rightarrow> int \<Rightarrow> bool \<Rightarrow> real
     \<Rightarrow> error + ('p, 'q, 's) nets trainer" where
  "train gradient build_autoencoder build_discriminator rule empty_slots io_ok
         train_dataset val_dataset epochs overlap use_gpu lr =
     train_loop (take_step gradient) calc_losses io_ok train_dataset val_dataset epochs overlap
       use_gpu (build_networks build_autoencoder build_discriminator rule empty_slots use_gpu lr)"

text \<open>
  Stub executors for tests: each hands out the next pair of losses of a canned list
  (the first for the training step, the second for the evaluation step).
\<close>

definition stub_step :: "(real list \<times> real list) executor" where
  "stub_step images centers overlap use_gpu q =
     (case fst q of [] \<Rightarrow> ((Num 0, Num 0), q) | x # xs \<Rightarrow> ((Num x, Num x), (xs, snd q)))"

definition stub_eval :: "(real list \<times> real list) executor" where
  "stub_eval images centers overlap use_gpu q =
     (case snd q of [] \<Rightarrow> ((Num 0, Num 0), q) | x # xs \<Rightarrow> ((Num x, Num x), (fst q, xs)))"

text \<open>The losses an executor returns batch by batch over a dataset, and the networks it leaves.\<close>

fun batch_losses ::
  "'n executor \<Rightarrow> int \<Rightarrow> bool \<Rightarrow> (tensor \<times> tensor) list \<Rightarrow> 'n \<Rightarrow> (scalar \<times> scalar) list" where
  "batch_losses exec overlap use_gpu [] n = []"
| "batch_losses exec overlap use_gpu (b # rest) n =
     (let image_batch = (if use_gpu then transpose_t (fst b) (0, 3, 1, 2) else fst b);
          center_batch = (if use_gpu then transpose_t (snd b) (0, 3, 1, 2) else snd b);
          r = exec image_batch center_batch overlap use_gpu n
      in fst r # batch_losses exec overlap use_gpu rest (snd r))"

fun networks_after ::
  "'n executor \<Rightarrow> int \<Rightarrow> bool \<Rightarrow> (tensor \<times> tensor) list \<Rightarrow> 'n \<Rightarrow> 'n" where
  "networks_after exec overlap use_gpu [] n = n"
| "networks_after exec overlap use_gpu (b # rest) n =
     (let image_batch = (if use_gpu then transpose_t (fst b) (0, 3, 1, 2) else fst b);
          center_batch = (if use_gpu then transpose_t (snd b) (0, 3, 1, 2) else snd b)
      in networks_after exec overlap use_gpu rest
           (snd (exec image_batch center_batch overlap use_gpu n)))"

definition mean :: "scalar list \<Rightarrow> scalar" where
  "mean xs = scalar_div (scalar_sum xs) (length xs)"

text \<open>The loop variables after a pass over a dataset: the last batch read, if any.\<close>

fun vars_after ::
  "bool \<Rightarrow> (tensor \<times> tensor) list \<Rightarrow> (tensor \<times> tensor) option \<Rightarrow> (tensor \<times> tensor) option" where
  "vars_after use_gpu [] vars = vars"
| "vars_after use_gpu (b # rest) vars =
     vars_after use_gpu rest
       (Some (if use_gpu then transpose_t (fst b) (0, 3, 1, 2) else fst b,
              if use_gpu then transpose_t (snd b) (0, 3, 1, 2) else snd b))"

text \<open>The networks after one epoch: a training pass, then a validation pass.\<close>

definition after_epoch ::
  "'n executor \<Rightarrow> 'n executor \<Rightarrow> (tensor \<times> tensor) list \<Rightarrow> (tensor \<times> tensor) list
     \<Rightarrow> int \<Rightarrow> bool \<Rightarrow> 'n \<Rightarrow> 'n" where
  "after_epoch step eval train_dataset val_dataset overlap use_gpu n =
     networks_after eval overlap use_gpu val_dataset
       (networks_after step overlap use_gpu train_dataset n)"

text \<open>
  The cadence of the spec: the writes expected at an epoch index, in order. They are
  due at index \<open>0\<close> and at every index whose successor is a multiple of five.
\<close>

definition dumps :: "nat \<Rightarrow> (nat \<times> action) list" where
  "dumps epoch =
     (if epoch = 0 \<or> (epoch + 1) mod 5 = 0
      then [(epoch, Save_pictures ''train''), (epoch, Checkpoint_save),
            (epoch, Save_pictures ''val'')]
      else [])"

definition epochs_with :: "action \<Rightarrow> (nat \<times> action) list \<Rightarrow> nat list" where
  "epochs_with a entries = map fst (filter (\<lambda>entry. snd entry = a) entries)"

text \<open>Fixed inputs for examples.\<close>

definition blank_batch :: "tensor \<times> tensor" where
  "blank_batch = (fill (1, 4, 4, 3) 0, fill (1, 2, 2, 3) 0)"

definition io_never_fails :: "nat \<Rightarrow> action \<Rightarrow> bool" where
  "io_never_fails epoch a = True"

definition all_but_checkpoint_ok :: "nat \<Rightarrow> action \<Rightarrow> bool" where
  "all_but_checkpoint_ok epoch a = (a \<noteq> Checkpoint_save)"

text \<open>
  A pair of toy networks, each with one real variable: a generator that returns its
  input, a discriminator whose verdict is its variable whatever it is shown, plain
  gradient descent as update rule and a gradient that is always \<open>1\<close>.
\<close>

definition identity_pass :: "bool \<Rightarrow> real \<Rightarrow> unit \<Rightarrow> tensor \<Rightarrow> tensor" where
  "identity_pass training v q x = x"

definition constant_verdict :: "bool \<Rightarrow> real \<Rightarrow> unit \<Rightarrow> tensor \<Rightarrow> tensor" where
  "constant_verdict training v q x = logits v"

definition toy_model :: "(bool \<Rightarrow> real \<Rightarrow> unit \<Rightarrow> tensor \<Rightarrow> tensor) \<Rightarrow> bool \<Rightarrow> (real, unit) model" where
  "toy_model f use_gpu =
     \<lparr>trainable_variables = 0, layer_state = (), forward = f, advance = (\<lambda>v q x. q)\<rparr>"

definition descent :: "real \<Rightarrow> nat \<Rightarrow> unit \<Rightarrow> real \<Rightarrow> real \<Rightarrow> unit \<times> real" where
  "descent lr k s g v = (s, v - lr * g)"

definition unit_gradient :: "(real \<Rightarrow> scalar) \<Rightarrow> real \<Rightarrow> real" where
  "unit_gradient f v = 1"

definition toy_networks :: "(real, unit, unit) nets" where
  "toy_networks =
     build_networks (toy_model identity_pass) (toy_model constant_verdict) descent () False 1"

definition toy_image :: tensor where
  "toy_image = fill (1, 1, 1, 1) 0"

text \<open>
  The slices along the two spatial axes over which \<open>generator_loss\<close> averages: the
  whole axis when there is no overlap, else the interior and the two ends.
\<close>

definition loss_slices :: "int \<Rightarrow> py_slice list" where
  "loss_slices overlap =
     (if overlap \<noteq> 0
      then [(Some overlap, Some (- overlap)), (None, Some overlap), (Some (- overlap), None)]
      else [full])"

text \<open>A four by four image of one channel that is \<open>1\<close> at one pixel and \<open>0\<close> elsewhere.\<close>

definition spot :: "nat \<Rightarrow> nat \<Rightarrow> tensor" where
  "spot i j =
     \<lparr>dim0 = 1, dim1 = 4, dim2 = 4, dim3 = 1,
      elem = (\<lambda>b r c ch. if r = i \<and> c = j then 1 else 0)\<rparr>"

section \<open>Properties of the loss functions\<close>

subsection \<open>Sums over slices and layouts\<close>

lemma reduce_value_flat:
  "reduce_value t f =
     (\<Sum>a<dim0 t. \<Sum>b<dim1 t. \<Sum>c<dim2 t. \<Sum>d<dim3 t. f a b c d)
       / real (dim0 t * dim1 t * dim2 t * dim3 t)"
  by (simp add: reduce_value_def sum_divide_distrib [symmetric])

lemma shift_sum:
  fixes g :: "nat \<Rightarrow> real"
  shows "(\<Sum>a<n - m. g (m + a)) = sum g {m..<n}"
proof (cases "m \<le> n")
  case True
  have "sum g {0 + m..<(n - m) + m} = (\<Sum>a\<in>{0..<n - m}. g (a + m))"
    by (rule sum.shift_bounds_nat_ivl)
  with True show ?thesis
    by (simp add: lessThan_atLeast0 add.commute)
next
  case False
  then show ?thesis by simp
qed

lemma shift_sum2:
  fixes G :: "nat \<Rightarrow> nat \<Rightarrow> real"
  shows "(\<Sum>c<n1 - m1. \<Sum>d<n2 - m2. G (m1 + c) (m2 + d))
         = (\<Sum>i\<in>{m1..<n1}. \<Sum>j\<in>{m2..<n2}. G i j)"
proof -
  have "(\<Sum>c<n1 - m1. \<Sum>d<n2 - m2. G (m1 + c) (m2 + d))
        = (\<Sum>c<n1 - m1. sum (G (m1 + c)) {m2..<n2})"
    by (rule sum.cong [OF refl]) (rule shift_sum)
  also have "\<dots> = (\<Sum>i\<in>{m1..<n1}. sum (G i) {m2..<n2})"
    by (rule shift_sum [where g = "\<lambda>i. sum (G i) {m2..<n2}"])
  finally show ?thesis .
qed

lemma sum_rotate:
  "(\<Sum>c\<in>C. \<Sum>i\<in>R. \<Sum>j\<in>S. F c i j) = (\<Sum>i\<in>R. \<Sum>j\<in>S. \<Sum>c\<in>C. F c i j)"
proof -
  have "(\<Sum>c\<in>C. \<Sum>i\<in>R. \<Sum>j\<in>S. F c i j) = (\<Sum>i\<in>R. \<Sum>c\<in>C. \<Sum>j\<in>S. F c i j)"
    by (rule sum.swap)
  also have "\<dots> = (\<Sum>i\<in>R. \<Sum>j\<in>S. \<Sum>c\<in>C. F c i j)"
    by (rule sum.cong [OF refl]) (rule sum.swap)
  finally show ?thesis .
qed

lemma slice_full [simp]:
  "slice_start n full = 0" "slice_stop n full = n" "slice_len n full = n"
  by (simp_all add: slice_start_def slice_stop_def slice_len_def full_def)

lemma inner_range:
  "0 < ov \<Longrightarrow> ov \<le> n \<Longrightarrow> slice_start n (Some (int ov), Some (- int ov)) = ov"
  "0 < ov \<Longrightarrow> slice_stop n (Some (int ov), Some (- int ov)) = n - ov"
  by (auto simp: slice_start_def slice_stop_def slice_bound_def)

lemma head_range:
  "slice_start n (None, Some (int ov)) = 0"
  "ov \<le> n \<Longrightarrow> slice_stop n (None, Some (int ov)) = ov"
  by (auto simp: slice_start_def slice_stop_def slice_bound_def)

lemma tail_range:
  "0 < ov \<Longrightarrow> slice_start n (Some (- int ov), None) = n - ov"
  "slice_stop n (Some (- int ov), None) = n"
  by (auto simp: slice_start_def slice_stop_def slice_bound_def)

subsection \<open>The mean squared error of a slice is that of a region\<close>

lemma mse_getitem_first:
  assumes "shape y_true = shape y_pred"
  shows "mse_value (getitem y_true full full s1 s2) (getitem y_pred full full s1 s2)
         = region_mse True y_true y_pred
             ({slice_start (dim2 y_pred) s1..<slice_stop (dim2 y_pred) s1},
              {slice_start (dim3 y_pred) s2..<slice_stop (dim3 y_pred) s2})"
proof -
  from assms have d: "dim2 y_true = dim2 y_pred" "dim3 y_true = dim3 y_pred"
    by (simp_all add: shape_def)
  let ?R = "{slice_start (dim2 y_pred) s1..<slice_stop (dim2 y_pred) s1}"
  let ?S = "{slice_start (dim3 y_pred) s2..<slice_stop (dim3 y_pred) s2}"
  let ?F = "\<lambda>a b i j. (elem y_pred a b i j - elem y_true a b i j)\<^sup>2"
  have "mse_value (getitem y_true full full s1 s2) (getitem y_pred full full s1 s2)
        = (\<Sum>a<dim0 y_pred. \<Sum>b<dim1 y_pred.
             \<Sum>c<slice_stop (dim2 y_pred) s1 - slice_start (dim2 y_pred) s1.
             \<Sum>d<slice_stop (dim3 y_pred) s2 - slice_start (dim3 y_pred) s2.
               ?F a b (slice_start (dim2 y_pred) s1 + c) (slice_start (dim3 y_pred) s2 + d))
            / real (dim0 y_pred * dim1 y_pred * card ?R * card ?S)"
    unfolding mse_value_def reduce_value_flat
    by (simp add: getitem_def d slice_len_def)
  also have "(\<Sum>a<dim0 y_pred. \<Sum>b<dim1 y_pred.
             \<Sum>c<slice_stop (dim2 y_pred) s1 - slice_start (dim2 y_pred) s1.
             \<Sum>d<slice_stop (dim3 y_pred) s2 - slice_start (dim3 y_pred) s2.
               ?F a b (slice_start (dim2 y_pred) s1 + c) (slice_start (dim3 y_pred) s2 + d))
        = (\<Sum>a<dim0 y_pred. \<Sum>b<dim1 y_pred. \<Sum>i\<in>?R. \<Sum>j\<in>?S. ?F a b i j)"
    by (intro sum.cong [OF refl]) (rule shift_sum2)
  also have "\<dots> = (\<Sum>a<dim0 y_pred. \<Sum>i\<in>?R. \<Sum>j\<in>?S. \<Sum>b<dim1 y_pred. ?F a b i j)"
    by (rule sum.cong [OF refl]) (rule sum_rotate)
  also have "real (dim0 y_pred * dim1 y_pred * card ?R * card ?S)
        = real (dim0 y_pred * card ?R * card ?S * dim1 y_pred)"
    by (simp add: mult.commute mult.left_commute)
  finally show ?thesis
    by (simp add: region_mse_def px_def channels_def)
qed

lemma mse_getitem_last:
  assumes "shape y_true = shape y_pred"
  shows "mse_value (getitem y_true full s1 s2 full) (getitem y_pred full s1 s2 full)
         = region_mse False y_true y_pred
             ({slice_start (dim1 y_pred) s1..<slice_stop (dim1 y_pred) s1},
              {slice_start (dim2 y_pred) s2..<slice_stop (dim2 y_pred) s2})"
proof -
  from assms have d: "dim1 y_true = dim1 y_pred" "dim2 y_true = dim2 y_pred"
    by (simp_all add: shape_def)
  let ?R = "{slice_start (dim1 y_pred) s1..<slice_stop (dim1 y_pred) s1}"
  let ?S = "{slice_start (dim2 y_pred) s2..<slice_stop (dim2 y_pred) s2}"
  let ?G = "\<lambda>a i j. \<Sum>c<dim3 y_pred. (elem y_pred a i j c - elem y_true a i j c)\<^sup>2"
  have "mse_value (getitem y_true full s1 s2 full) (getitem y_pred full s1 s2 full)
        = (\<Sum>a<dim0 y_pred.
             \<Sum>c<slice_stop (dim1 y_pred) s1 - slice_start (dim1 y_pred) s1.
             \<Sum>d<slice_stop (dim2 y_pred) s2 - slice_start (dim2 y_pred) s2.
               ?G a (slice_start (dim1 y_pred) s1 + c) (slice_start (dim2 y_pred) s2 + d))
            / real (dim0 y_pred * card ?R * card ?S * dim3 y_pred)"
    unfolding mse_value_def reduce_value_flat
    by (simp add: getitem_def d slice_len_def)
  also have "(\<Sum>a<dim0 y_pred.
             \<Sum>c<slice_stop (dim1 y_pred) s1 - slice_start (dim1 y_pred) s1.
             \<Sum>d<slice_stop (dim2 y_pred) s2 - slice_start (dim2 y_pred) s2.
               ?G a (slice_start (dim1 y_pred) s1 + c) (slice_start (dim2 y_pred) s2 + d))
        = (\<Sum>a<dim0 y_pred. \<Sum>i\<in>?R. \<Sum>j\<in>?S. ?G a i j)"
    by (intro sum.cong [OF refl]) (rule shift_sum2)
  finally show ?thesis
    by (simp add: region_mse_def px_def channels_def)
qed

lemma mse_whole:
  "mse_value y_true y_pred
     = region_mse use_gpu y_true y_pred (whole (height use_gpu y_pred) (width use_gpu y_pred))"
proof (cases use_gpu)
  case True
  let ?F = "\<lambda>a b i j. (elem y_pred a b i j - elem y_true a b i j)\<^sup>2"
  have "(\<Sum>a<dim0 y_pred. \<Sum>b<dim1 y_pred. \<Sum>i<dim2 y_pred. \<Sum>j<dim3 y_pred. ?F a b i j)
        = (\<Sum>a<dim0 y_pred. \<Sum>i<dim2 y_pred. \<Sum>j<dim3 y_pred. \<Sum>b<dim1 y_pred. ?F a b i j)"
    by (rule sum.cong [OF refl]) (rule sum_rotate)
  moreover have "real (dim0 y_pred * dim1 y_pred * dim2 y_pred * dim3 y_pred)
        = real (dim0 y_pred * dim2 y_pred * dim3 y_pred * dim1 y_pred)"
    by (simp add: mult.commute mult.left_commute)
  ultimately show ?thesis
    using True unfolding mse_value_def reduce_value_flat region_mse_def
    by (simp add: px_def channels_def height_def width_def whole_def)
next
  case False
  then show ?thesis
    unfolding mse_value_def reduce_value_flat region_mse_def
    by (simp add: px_def channels_def height_def width_def whole_def)
qed

lemma mse_slices:
  assumes "shape y_true = shape y_pred"
  shows "(if use_gpu then mse_value (getitem y_true full full s1 s2) (getitem y_pred full full s1 s2)
          else mse_value (getitem y_true full s1 s2 full) (getitem y_pred full s1 s2 full))
         = region_mse use_gpu y_true y_pred
             ({slice_start (height use_gpu y_pred) s1..<slice_stop (height use_gpu y_pred) s1},
              {slice_start (width use_gpu y_pred) s2..<slice_stop (width use_gpu y_pred) s2})"
  using mse_getitem_first [OF assms] mse_getitem_last [OF assms]
  by (simp add: height_def width_def)

subsection \<open>The stable cross-entropy is the textbook one\<close>

lemma softplus_neg: "ln (1 + exp x) = x + ln (1 + exp (- x))" for x :: real
proof -
  have "1 + exp x = exp x * (1 + exp (- x))"
    by (simp add: algebra_simps exp_minus)
  moreover have "ln (exp x * (1 + exp (- x))) = ln (exp x) + ln (1 + exp (- x))"
    by (rule ln_mult_pos) (simp_all add: add_pos_pos)
  ultimately show ?thesis by simp
qed

lemma logit_ce_one: "logit_cross_entropy 1 x = ln (1 + exp (- x))"
proof (cases "0 \<le> x")
  case True
  then show ?thesis by (simp add: logit_cross_entropy_def)
next
  case False
  then show ?thesis using softplus_neg [of "- x"] by (simp add: logit_cross_entropy_def)
qed

lemma logit_ce_zero: "logit_cross_entropy 0 x = ln (1 + exp x)"
proof (cases "0 \<le> x")
  case True
  then show ?thesis using softplus_neg [of x] by (simp add: logit_cross_entropy_def)
next
  case False
  then show ?thesis by (simp add: logit_cross_entropy_def)
qed

lemma bce_one: "binary_cross_entropy 1 x = ln (1 + exp (- x))"
proof -
  have "0 < 1 + exp (- x)" by (simp add: add_pos_pos)
  then have "ln (1 / (1 + exp (- x))) = - ln (1 + exp (- x))"
    by (simp add: ln_div)
  then show ?thesis by (simp add: binary_cross_entropy_def sigmoid_def)
qed

lemma bce_zero: "binary_cross_entropy 0 x = ln (1 + exp x)"
proof -
  have pos: "0 < 1 + exp (- x)" by (simp add: add_pos_pos)
  then have "1 - 1 / (1 + exp (- x)) = exp (- x) / (1 + exp (- x))"
    by (simp add: field_simps)
  moreover have "ln (exp (- x) / (1 + exp (- x))) = - x - ln (1 + exp (- x))"
    using pos by (simp add: ln_div)
  ultimately show ?thesis
    using softplus_neg [of x] by (simp add: binary_cross_entropy_def sigmoid_def)
qed

lemma cross_entropy_ones: "cross_entropy_value (ones_like t) t = batch_mean_bce 1 t"
  by (simp add: cross_entropy_value_def reduce_value_flat batch_mean_bce_def ones_like_def
      logit_ce_one bce_one)

lemma cross_entropy_zeros: "cross_entropy_value (zeros_like t) t = batch_mean_bce 0 t"
  by (simp add: cross_entropy_value_def reduce_value_flat batch_mean_bce_def zeros_like_def
      logit_ce_zero bce_zero)

lemma reduce_value_nonneg:
  assumes "\<And>a b c d. 0 \<le> f a b c d"
  shows "0 \<le> reduce_value t f"
  unfolding reduce_value_flat
  by (intro divide_nonneg_nonneg sum_nonneg assms) simp

lemma cross_entropy_ones_nonneg: "0 \<le> cross_entropy_value (ones_like t) t"
  unfolding cross_entropy_value_def
  by (rule reduce_value_nonneg) (simp add: ones_like_def logit_ce_one)

lemma cross_entropy_zeros_nonneg: "0 \<le> cross_entropy_value (zeros_like t) t"
  unfolding cross_entropy_value_def
  by (rule reduce_value_nonneg) (simp add: zeros_like_def logit_ce_zero)

subsection \<open>Numerical bounds\<close>

lemma exp_taylor_bounds:
  fixes x :: real
  assumes "0 \<le> x" "x \<le> 1"
  shows "(\<Sum>m<n. x ^ m / fact m) \<le> exp x"
    and "exp x \<le> (\<Sum>m<n. x ^ m / fact m) + 3 * x ^ n / fact n"
proof -
  obtain t where t: "\<bar>t\<bar> \<le> \<bar>x\<bar>"
    and e: "exp x = (\<Sum>m<n. x ^ m / fact m) + (exp t / fact n) * x ^ n"
    using Maclaurin_exp_le [of x n] by blast
  have "0 \<le> (exp t / fact n) * x ^ n"
    using assms by simp
  with e show "(\<Sum>m<n. x ^ m / fact m) \<le> exp x" by simp
  have "t \<le> 1" using t assms by simp
  then have "exp t \<le> exp 1" by simp
  then have "exp t \<le> 3" by (rule order_trans) (rule exp_le)
  then have "exp t * x ^ n \<le> 3 * x ^ n"
    using assms by (intro mult_right_mono) simp_all
  then have "(exp t / fact n) * x ^ n \<le> 3 * x ^ n / fact n"
    by (simp add: divide_right_mono)
  with e show "exp x \<le> (\<Sum>m<n. x ^ m / fact m) + 3 * x ^ n / fact n" by simp
qed

lemma e_bounds: "(27182 / 10000 :: real) \<le> exp 1" "exp 1 \<le> (27184 / 10000 :: real)"
proof -
  have s: "(\<Sum>m<8. (1::real) ^ m / fact m) = 685 / 252"
    by (simp add: eval_nat_numeral fact_numeral)
  have "(685 / 252 :: real) \<le> exp 1"
    using exp_taylor_bounds(1) [of 1 8] s by simp
  then show "(27182 / 10000 :: real) \<le> exp 1" by linarith
  have "exp 1 \<le> (685 / 252 + 3 / 40320 :: real)"
    using exp_taylor_bounds(2) [of 1 8] s by (simp add: fact_numeral)
  then show "exp 1 \<le> (27184 / 10000 :: real)" by linarith
qed

lemma exp_minus_two_bounds:
  "(13532 / 100000 :: real) < exp (- 2)" "exp (- 2) < (13535 / 100000 :: real)"
proof -
  have sq: "exp (2::real) = (exp 1)\<^sup>2"
    using exp_double [of "1::real"] by simp
  have lo: "(27182 / 10000)\<^sup>2 \<le> (exp (1::real))\<^sup>2"
    using e_bounds(1) by (intro power_mono) simp_all
  have hi: "(exp (1::real))\<^sup>2 \<le> (27184 / 10000)\<^sup>2"
    using e_bounds(2) by (intro power_mono) simp_all
  have pos: "0 < exp (2::real)" by simp
  have m: "exp (- 2 :: real) = 1 / exp 2" by (simp add: exp_minus inverse_eq_divide)
  show "(13532 / 100000 :: real) < exp (- 2)"
    unfolding m using hi pos sq by (simp add: field_simps power2_eq_square)
  show "exp (- 2) < (13535 / 100000 :: real)"
    unfolding m using lo pos sq by (simp add: field_simps power2_eq_square)
qed

lemma softplus_minus_two_bounds:
  "(1265 / 10000 :: real) < ln (1 + exp (- 2))" "ln (1 + exp (- 2)) < (1275 / 10000 :: real)"
proof -
  have pos: "(0::real) < 1 + exp (- 2)" by (simp add: add_pos_pos)
  have "exp (1265 / 10000 :: real)
        \<le> (\<Sum>m<4. (1265 / 10000) ^ m / fact m) + 3 * (1265 / 10000) ^ 4 / fact 4"
    by (rule exp_taylor_bounds(2)) simp_all
  also have "\<dots> < 1 + 13532 / 100000"
    by (simp add: eval_nat_numeral fact_numeral)
  also have "\<dots> < 1 + exp (- 2)"
    using exp_minus_two_bounds(1) by simp
  finally have "exp (1265 / 10000 :: real) < 1 + exp (- 2)" .
  then have "ln (exp (1265 / 10000 :: real)) < ln (1 + exp (- 2))"
    by (subst ln_less_cancel_iff) (simp_all add: pos)
  then show "(1265 / 10000 :: real) < ln (1 + exp (- 2))" by simp
  have "1 + exp (- 2) < (1 + 13535 / 100000 :: real)"
    using exp_minus_two_bounds(2) by simp
  also have "\<dots> < 1 + 1275 / 10000 + (1275 / 10000)\<^sup>2 / 2"
    by (simp add: power2_eq_square)
  also have "\<dots> \<le> exp (1275 / 10000 :: real)"
    by (rule exp_lower_Taylor_quadratic) simp
  finally have "1 + exp (- 2) < exp (1275 / 10000 :: real)" .
  then have "ln (1 + exp (- 2)) < ln (exp (1275 / 10000 :: real))"
    by (subst ln_less_cancel_iff) (simp_all add: pos)
  then show "ln (1 + exp (- 2)) < (1275 / 10000 :: real)" by simp
qed

subsection \<open>When the losses are numbers\<close>

lemma MSE_num:
  "MSE y_true y_pred = (if empty_last y_pred then NaN else Num (mse_value y_true y_pred))"
  by (simp add: MSE_def reduce_losses_def mse_value_def)

lemma cross_entropy_num:
  "cross_entropy y_true y_pred
     = (if empty_last y_pred then NaN else Num (cross_entropy_value y_true y_pred))"
  by (simp add: cross_entropy_def reduce_losses_def cross_entropy_value_def)

lemma adversarial_num:
  "cross_entropy (ones_like t) t = (if empty_last t then NaN else Num (batch_mean_bce 1 t))"
  by (simp add: cross_entropy_num cross_entropy_ones)

lemma bce_mean_logits: "batch_mean_bce z (logits x) = binary_cross_entropy z x"
  by (simp add: batch_mean_bce_def logits_def fill_def)

lemma empty_last_slice_last:
  "empty_last (getitem t full s1 s2 full)
     \<longleftrightarrow> dim3 t = 0 \<and> dim0 t * slice_len (dim1 t) s1 * slice_len (dim2 t) s2 \<noteq> 0"
  by (simp add: empty_last_def getitem_def)

lemma empty_last_slice_first:
  "empty_last (getitem t full full s1 s2)
     \<longleftrightarrow> slice_len (dim3 t) s2 = 0 \<and> dim0 t * dim1 t * slice_len (dim2 t) s1 \<noteq> 0"
  by (simp add: empty_last_def getitem_def)

lemma slice_lens:
  "0 < ov \<Longrightarrow> ov \<le> n \<Longrightarrow> slice_len n (Some (int ov), Some (- int ov)) = n - 2 * ov"
  "ov \<le> n \<Longrightarrow> slice_len n (None, Some (int ov)) = ov"
  "0 < ov \<Longrightarrow> ov \<le> n \<Longrightarrow> slice_len n (Some (- int ov), None) = ov"
  by (simp_all add: slice_len_def inner_range head_range tail_range)

text \<open>The three slices give numbers when the overlap fits and no slice has an empty last axis.\<close>

lemma slices_num:
  assumes "shape y_true = shape y_pred" "0 < channels use_gpu y_pred"
    "0 < ov" "ov \<le> height use_gpu y_pred" "ov \<le> width use_gpu y_pred"
  shows "(if use_gpu
          then MSE (getitem y_true full full (None, Some (int ov)) (None, Some (int ov)))
                   (getitem y_pred full full (None, Some (int ov)) (None, Some (int ov)))
          else MSE (getitem y_true full (None, Some (int ov)) (None, Some (int ov)) full)
                   (getitem y_pred full (None, Some (int ov)) (None, Some (int ov)) full))
         = Num (region_mse use_gpu y_true y_pred (left_square ov))"
    and "(if use_gpu
          then MSE (getitem y_true full full (Some (- int ov), None) (Some (- int ov), None))
                   (getitem y_pred full full (Some (- int ov), None) (Some (- int ov), None))
          else MSE (getitem y_true full (Some (- int ov), None) (Some (- int ov), None) full)
                   (getitem y_pred full (Some (- int ov), None) (Some (- int ov), None) full))
         = Num (region_mse use_gpu y_true y_pred
                  (right_square (height use_gpu y_pred) (width use_gpu y_pred) ov))"
    and "(use_gpu \<longrightarrow> 2 * ov < width use_gpu y_pred \<or> height use_gpu y_pred \<le> 2 * ov) \<Longrightarrow>
         (if use_gpu
          then MSE (getitem y_true full full (Some (int ov), Some (- int ov)) (Some (int ov), Some (- int ov)))
                   (getitem y_pred full full (Some (int ov), Some (- int ov)) (Some (int ov), Some (- int ov)))
          else MSE (getitem y_true full (Some (int ov), Some (- int ov)) (Some (int ov), Some (- int ov)) full)
                   (getitem y_pred full (Some (int ov), Some (- int ov)) (Some (int ov), Some (- int ov)) full))
         = Num (region_mse use_gpu y_true y_pred
                  (center (height use_gpu y_pred) (width use_gpu y_pred) ov))"
proof -
  note s = mse_slices [OF assms(1), of use_gpu]
  show "(if use_gpu
          then MSE (getitem y_true full full (None, Some (int ov)) (None, Some (int ov)))
                   (getitem y_pred full full (None, Some (int ov)) (None, Some (int ov)))
          else MSE (getitem y_true full (None, Some (int ov)) (None, Some (int ov)) full)
                   (getitem y_pred full (None, Some (int ov)) (None, Some (int ov)) full))
         = Num (region_mse use_gpu y_true y_pred (left_square ov))"
    using assms s [of "(None, Some (int ov))" "(None, Some (int ov))"]
    by (auto simp: MSE_num empty_last_slice_last empty_last_slice_first slice_lens
        height_def width_def channels_def head_range left_square_def lessThan_atLeast0
        split: if_splits)
  show "(if use_gpu
          then MSE (getitem y_true full full (Some (- int ov), None) (Some (- int ov), None))
                   (getitem y_pred full full (Some (- int ov), None) (Some (- int ov), None))
          else MSE (getitem y_true full (Some (- int ov), None) (Some (- int ov), None) full)
                   (getitem y_pred full (Some (- int ov), None) (Some (- int ov), None) full))
         = Num (region_mse use_gpu y_true y_pred
                  (right_square (height use_gpu y_pred) (width use_gpu y_pred) ov))"
    using assms s [of "(Some (- int ov), None)" "(Some (- int ov), None)"]
    by (auto simp: MSE_num empty_last_slice_last empty_last_slice_first slice_lens
        height_def width_def channels_def tail_range right_square_def
        split: if_splits)
  show "(if use_gpu
          then MSE (getitem y_true full full (Some (int ov), Some (- int ov)) (Some (int ov), Some (- int ov)))
                   (getitem y_pred full full (Some (int ov), Some (- int ov)) (Some (int ov), Some (- int ov)))
          else MSE (getitem y_true full (Some (int ov), Some (- int ov)) (Some (int ov), Some (- int ov)) full)
                   (getitem y_pred full (Some (int ov), Some (- int ov)) (Some (int ov), Some (- int ov)) full))
         = Num (region_mse use_gpu y_true y_pred
                  (center (height use_gpu y_pred) (width use_gpu y_pred) ov))"
    if "use_gpu \<longrightarrow> 2 * ov < width use_gpu y_pred \<or> height use_gpu y_pred \<le> 2 * ov"
    using assms that
      s [of "(Some (int ov), Some (- int ov))" "(Some (int ov), Some (- int ov))"]
    by (auto simp: MSE_num empty_last_slice_last empty_last_slice_first slice_lens
        height_def width_def channels_def inner_range center_def
        split: if_splits)
qed

subsection \<open>The generator loss\<close>

lemma logits_not_empty [simp]: "\<not> empty_last (logits x)"
  by (simp add: empty_last_def logits_def fill_def)

lemma adversarial_logits:
  "cross_entropy (ones_like (logits x)) (logits x) = Num (ln (1 + exp (- x)))"
  by (simp add: adversarial_num bce_mean_logits bce_one)

lemma nan_on_narrow_image:
  "generator_loss (logits 0) (fill (1, 1, 6, 4) 0) (fill (1, 1, 6, 4) 1) 2 True = NaN"
  by (simp add: generator_loss_def generator_loss_w_def Let_def MSE_num empty_last_def
      getitem_def fill_def slice_len_def slice_start_def slice_stop_def slice_bound_def full_def)

lemma twice_counted_pixel:
  "generator_loss (logits 0) (fill (1, 4, 4, 1) 0) (spot 1 1) 3 False = Num (2 + ln 2 / 10)"
proof -
  have sh: "shape (fill (1, 4, 4, 1) 0) = shape (spot 1 1)"
    by (simp add: shape_def fill_def spot_def)
  have l: "MSE (getitem (fill (1, 4, 4, 1) 0) full (None, Some 3) (None, Some 3) full)
               (getitem (spot 1 1) full (None, Some 3) (None, Some 3) full) = Num (1 / 9)"
    by (simp add: MSE_def reduce_losses_def reduce_value_def empty_last_def getitem_def fill_def
        spot_def slice_len_def slice_start_def slice_stop_def slice_bound_def full_def
        lessThan_nat_numeral lessThan_Suc)
  have r: "MSE (getitem (fill (1, 4, 4, 1) 0) full (Some (- 3), None) (Some (- 3), None) full)
               (getitem (spot 1 1) full (Some (- 3), None) (Some (- 3), None) full) = Num (1 / 9)"
    by (simp add: MSE_def reduce_losses_def reduce_value_def empty_last_def getitem_def fill_def
        spot_def slice_len_def slice_start_def slice_stop_def slice_bound_def full_def
        lessThan_nat_numeral lessThan_Suc)
  have c: "MSE (getitem (fill (1, 4, 4, 1) 0) full (Some 3, Some (- 3)) (Some 3, Some (- 3)) full)
               (getitem (spot 1 1) full (Some 3, Some (- 3)) (Some 3, Some (- 3)) full) = Num 0"
    by (simp add: MSE_def reduce_losses_def reduce_value_def empty_last_def getitem_def fill_def
        spot_def slice_len_def slice_start_def slice_stop_def slice_bound_def full_def)
  have a: "cross_entropy (ones_like (logits 0)) (logits 0) = Num (ln 2)"
    using adversarial_logits [of 0] by simp
  show ?thesis
    unfolding generator_loss_def generator_loss_w_def Let_def
    by (simp only: l r c a if_True) simp
qed


text \<open>
  Claim C1, as stated, holds for every pair of equally shaped tensors and every positive
  overlap. On a channel-first image of six rows and four columns with overlap \<open>2\<close> the
  interior has two rows and no column, and the loss is \<open>NaN\<close>, not a weighted sum of
  mean squared errors. On an image of four rows and columns with overlap \<open>3\<close> the two
  squares are not disjoint: an error at the pixel \<open>(1, 1)\<close> alone is counted in both.
\<close>

theorem generator_loss_regions_counterexample:
  "generator_loss (logits 0) (fill (1, 1, 6, 4) 0) (fill (1, 1, 6, 4) 1) 2 True = NaN
   \<and> generator_loss (logits 0) (fill (1, 1, 6, 4) 0) (fill (1, 1, 6, 4) 1) 2 True
       \<noteq> Num (9 / 10 * (region_mse True (fill (1, 1, 6, 4) 0) (fill (1, 1, 6, 4) 1) (center 6 4 2)
                          + 10 * (region_mse True (fill (1, 1, 6, 4) 0) (fill (1, 1, 6, 4) 1)
                                    (left_square 2)
                                  + region_mse True (fill (1, 1, 6, 4) 0) (fill (1, 1, 6, 4) 1)
                                      (right_square 6 4 2)))
                + 1 / 10 * batch_mean_bce 1 (logits 0))
   \<and> generator_loss (logits 0) (fill (1, 4, 4, 1) 0) (spot 1 1) 3 False = Num (2 + ln 2 / 10)
   \<and> (1, 1) \<in> pixels (left_square 3) \<inter> pixels (right_square 4 4 3)"
proof -
  note a = nan_on_narrow_image
  have b: "generator_loss (logits 0) (fill (1, 1, 6, 4) 0) (fill (1, 1, 6, 4) 1) 2 True
       \<noteq> Num (9 / 10 * (region_mse True (fill (1, 1, 6, 4) 0) (fill (1, 1, 6, 4) 1) (center 6 4 2)
                          + 10 * (region_mse True (fill (1, 1, 6, 4) 0) (fill (1, 1, 6, 4) 1)
                                    (left_square 2)
                                  + region_mse True (fill (1, 1, 6, 4) 0) (fill (1, 1, 6, 4) 1)
                                      (right_square 6 4 2)))
                + 1 / 10 * batch_mean_bce 1 (logits 0))"
    unfolding a by (rule scalar.distinct)
  note c = twice_counted_pixel
  have d: "(1, 1) \<in> pixels (left_square 3) \<inter> pixels (right_square 4 4 3)"
    by (simp add: pixels_def left_square_def right_square_def)
  from a b c d show ?thesis by blast
qed

text \<open>
  Claim C1, amended. For two center tensors of one shape with at least one channel and
  a \<open>fake_output\<close> whose last axis is not empty, in either layout, the generator loss
  is \<open>0.9\<close> times a reconstruction term plus \<open>0.1\<close> times the cross-entropy of
  \<open>fake_output\<close> against all ones. With \<open>overlap = 0\<close> the reconstruction term is the
  mean squared error over the whole image (in the channel-first layout, when the image
  has a column or no row). With a positive overlap that is at most the height and the
  width it is the mean squared error over the interior that leaves out a border of
  width \<open>overlap\<close>, plus ten times the sum of the mean squared errors over the top-left
  and the bottom-right square of side \<open>overlap\<close> (in the channel-first layout, when
  the interior has a column or no row). When the image is at least twice the overlap
  wide and high, these three regions are pairwise disjoint parts of the image, each
  square has \<open>overlap * overlap\<close> pixels, and the top-right and bottom-left corner
  pixels belong to none of them.
\<close>

theorem generator_loss_regions:
  fixes ov :: nat
  assumes "shape y_true = shape y_pred" "0 < channels use_gpu y_pred" "\<not> empty_last fake_output"
  shows "(let h = height use_gpu y_pred; w = width use_gpu y_pred;
              loss = generator_loss fake_output y_true y_pred (int ov) use_gpu;
              adversarial = batch_mean_bce 1 fake_output;
              mse = region_mse use_gpu y_true y_pred
          in (ov = 0 \<and> (use_gpu \<longrightarrow> 0 < w \<or> h = 0)
                \<longrightarrow> loss = Num (9 / 10 * mse (whole h w) + 1 / 10 * adversarial))
           \<and> (0 < ov \<and> ov \<le> h \<and> ov \<le> w \<and> (use_gpu \<longrightarrow> 2 * ov < w \<or> h \<le> 2 * ov) \<longrightarrow>
                loss = Num (9 / 10 * (mse (center h w ov)
                                      + 10 * (mse (left_square ov) + mse (right_square h w ov)))
                            + 1 / 10 * adversarial))
           \<and> (0 < ov \<and> 2 * ov \<le> h \<and> 2 * ov \<le> w \<longrightarrow>
                pixels (center h w ov) \<inter> pixels (left_square ov) = {}
              \<and> pixels (center h w ov) \<inter> pixels (right_square h w ov) = {}
              \<and> pixels (left_square ov) \<inter> pixels (right_square h w ov) = {}
              \<and> pixels (center h w ov) \<union> pixels (left_square ov) \<union> pixels (right_square h w ov)
                  \<subseteq> pixels (whole h w)
              \<and> card (pixels (left_square ov)) = ov * ov
              \<and> card (pixels (right_square h w ov)) = ov * ov
              \<and> (0, w - 1) \<notin> pixels (center h w ov) \<union> pixels (left_square ov)
                                \<union> pixels (right_square h w ov)
              \<and> (h - 1, 0) \<notin> pixels (center h w ov) \<union> pixels (left_square ov)
                                \<union> pixels (right_square h w ov)))"
proof -
  let ?h = "height use_gpu y_pred" and ?w = "width use_gpu y_pred"
  let ?loss = "generator_loss fake_output y_true y_pred (int ov) use_gpu"
  let ?adv = "batch_mean_bce 1 fake_output"
  let ?mse = "region_mse use_gpu y_true y_pred"
  have adv: "cross_entropy (ones_like fake_output) fake_output = Num ?adv"
    using assms(3) by (simp add: adversarial_num)
  have plain: "?loss = Num (9 / 10 * ?mse (whole ?h ?w) + 1 / 10 * ?adv)"
    if "ov = 0" "use_gpu \<longrightarrow> 0 < ?w \<or> ?h = 0"
  proof -
    have "\<not> empty_last y_pred"
      using that(2) assms(2)
      by (auto simp: empty_last_def height_def width_def channels_def split: if_splits)
    then have "MSE y_true y_pred = Num (?mse (whole ?h ?w))"
      using mse_whole [of y_true y_pred use_gpu] by (simp add: MSE_num)
    with that(1) adv show ?thesis
      by (simp add: generator_loss_def generator_loss_w_def)
  qed
  have split: "?loss = Num (9 / 10 * (?mse (center ?h ?w ov)
                   + 10 * (?mse (left_square ov) + ?mse (right_square ?h ?w ov))) + 1 / 10 * ?adv)"
    if "0 < ov" "ov \<le> ?h" "ov \<le> ?w" "use_gpu \<longrightarrow> 2 * ov < ?w \<or> ?h \<le> 2 * ov"
  proof -
    note l = slices_num(1) [OF assms(1,2) that(1,2,3)]
    note r = slices_num(2) [OF assms(1,2) that(1,2,3)]
    note c = slices_num(3) [OF assms(1,2) that(1,2,3,4)]
    from c l r that(1) adv show ?thesis
      by (cases use_gpu)
         (simp_all add: generator_loss_def generator_loss_w_def Let_def)
  qed
  have geometry:
    "pixels (center ?h ?w ov) \<inter> pixels (left_square ov) = {}
     \<and> pixels (center ?h ?w ov) \<inter> pixels (right_square ?h ?w ov) = {}
     \<and> pixels (left_square ov) \<inter> pixels (right_square ?h ?w ov) = {}
     \<and> pixels (center ?h ?w ov) \<union> pixels (left_square ov) \<union> pixels (right_square ?h ?w ov)
         \<subseteq> pixels (whole ?h ?w)
     \<and> card (pixels (left_square ov)) = ov * ov
     \<and> card (pixels (right_square ?h ?w ov)) = ov * ov
     \<and> (0, ?w - 1) \<notin> pixels (center ?h ?w ov) \<union> pixels (left_square ov)
                       \<union> pixels (right_square ?h ?w ov)
     \<and> (?h - 1, 0) \<notin> pixels (center ?h ?w ov) \<union> pixels (left_square ov)
                       \<union> pixels (right_square ?h ?w ov)"
    if "0 < ov" "2 * ov \<le> ?h" "2 * ov \<le> ?w"
    using that
    by (auto simp: pixels_def center_def left_square_def right_square_def whole_def)
  from plain split geometry show ?thesis
    unfolding Let_def by blast
qed

theorem generator_loss_regions_witness:
  "shape (fill (1, 4, 4, 1) 0) = shape (spot 0 0)
   \<and> 0 < channels False (spot 0 0) \<and> \<not> empty_last (logits 0)
   \<and> height False (spot 0 0) = 4 \<and> width False (spot 0 0) = 4
   \<and> generator_loss (logits 0) (fill (1, 4, 4, 1) 0) (spot 0 0) (int 0) False
       = Num (9 / 160 + ln 2 / 10)
   \<and> generator_loss (logits 0) (fill (1, 4, 4, 1) 0) (spot 0 0) (int 1) False
       = Num (9 + ln 2 / 10)"
proof -
  let ?yt = "fill (1, 4, 4, 1) 0"
  let ?yp = "spot 0 0"
  have sh: "shape ?yt = shape ?yp"
    by (simp add: shape_def fill_def spot_def)
  have ch: "0 < channels False ?yp"
    by (simp add: channels_def spot_def)
  have ne: "\<not> empty_last (logits 0)"
    by simp
  have hw: "height False ?yp = 4" "width False ?yp = 4"
    by (simp_all add: height_def width_def spot_def)
  have adv: "batch_mean_bce 1 (logits 0) = ln 2"
    by (simp add: bce_mean_logits bce_one)
  have w: "region_mse False ?yt ?yp (whole 4 4) = 1 / 16"
    by (simp add: region_mse_def whole_def channels_def px_def fill_def spot_def
        lessThan_nat_numeral lessThan_Suc)
  have c: "region_mse False ?yt ?yp (center 4 4 1) = 0"
    by (simp add: region_mse_def center_def channels_def px_def fill_def spot_def)
  have l: "region_mse False ?yt ?yp (left_square 1) = 1"
    by (simp add: region_mse_def left_square_def channels_def px_def fill_def spot_def)
  have r: "region_mse False ?yt ?yp (right_square 4 4 1) = 0"
    by (simp add: region_mse_def right_square_def channels_def px_def fill_def spot_def)
  have zero: "generator_loss (logits 0) ?yt ?yp (int 0) False = Num (9 / 160 + ln 2 / 10)"
    using generator_loss_regions [OF sh ch ne, of 0]
    unfolding Let_def hw adv w by simp
  have one: "generator_loss (logits 0) ?yt ?yp (int 1) False = Num (9 + ln 2 / 10)"
    using generator_loss_regions [OF sh ch ne, of 1]
    unfolding Let_def hw adv c l r by simp
  from sh ch ne hw zero one show ?thesis
    by blast
qed

subsection \<open>The two layouts\<close>

lemma transpose_0312:
  "transpose_t t (0, 3, 1, 2) =
     \<lparr>dim0 = dim0 t, dim1 = dim3 t, dim2 = dim1 t, dim3 = dim2 t,
      elem = (\<lambda>a c i j. elem t a i j c)\<rparr>"
  by (simp add: transpose_t_def axis_dim_def Let_def)

lemma getitem_transpose:
  "getitem (transpose_t t (0, 3, 1, 2)) full full s1 s2
     = transpose_t (getitem t full s1 s2 full) (0, 3, 1, 2)"
  by (simp add: transpose_0312 getitem_def)

lemma mse_value_transpose:
  "mse_value (transpose_t u (0, 3, 1, 2)) (transpose_t v (0, 3, 1, 2)) = mse_value u v"
proof -
  let ?F = "\<lambda>a i j c. (elem v a i j c - elem u a i j c)\<^sup>2"
  have "(\<Sum>a<dim0 v. \<Sum>c<dim3 v. \<Sum>i<dim1 v. \<Sum>j<dim2 v. ?F a i j c)
        = (\<Sum>a<dim0 v. \<Sum>i<dim1 v. \<Sum>j<dim2 v. \<Sum>c<dim3 v. ?F a i j c)"
    by (rule sum.cong [OF refl]) (rule sum_rotate)
  moreover have "real (dim0 v * dim3 v * dim1 v * dim2 v) = real (dim0 v * dim1 v * dim2 v * dim3 v)"
    by (simp add: mult.commute mult.left_commute)
  ultimately show ?thesis
    unfolding mse_value_def reduce_value_flat by (simp add: transpose_0312)
qed

lemma MSE_transpose:
  assumes "0 < dim3 v" "dim2 v = 0 \<longrightarrow> dim1 v = 0"
  shows "MSE (transpose_t u (0, 3, 1, 2)) (transpose_t v (0, 3, 1, 2)) = MSE u v"
proof -
  have "\<not> empty_last v"
    using assms(1) by (simp add: empty_last_def)
  moreover have "\<not> empty_last (transpose_t v (0, 3, 1, 2))"
    using assms(2) by (auto simp: empty_last_def transpose_0312)
  ultimately show ?thesis
    by (simp add: MSE_num mse_value_transpose)
qed

lemma MSE_slice_transpose:
  assumes "0 < dim3 y_pred" "slice_len (dim2 y_pred) s = 0 \<longrightarrow> slice_len (dim1 y_pred) s = 0"
  shows "MSE (getitem (transpose_t y_true (0, 3, 1, 2)) full full s s)
             (getitem (transpose_t y_pred (0, 3, 1, 2)) full full s s)
         = MSE (getitem y_true full s s full) (getitem y_pred full s s full)"
proof -
  have "0 < dim3 (getitem y_pred full s s full)"
    using assms(1) by (simp add: getitem_def)
  moreover have "dim2 (getitem y_pred full s s full) = 0 \<longrightarrow> dim1 (getitem y_pred full s s full) = 0"
    using assms(2) by (simp add: getitem_def)
  ultimately show ?thesis
    unfolding getitem_transpose by (rule MSE_transpose)
qed

text \<open>
  Claim C10, as stated, holds for every overlap and all channel-last tensors. On an
  image of six rows and four columns with overlap \<open>2\<close> the interior has two rows and no
  column: the channel-last branch averages over its one channel and returns a number,
  the channel-first branch on the transposes averages over its empty row and returns
  \<open>NaN\<close>.
\<close>

theorem layouts_agree_counterexample:
  "generator_loss (logits 0) (fill (1, 6, 4, 1) 0) (fill (1, 6, 4, 1) 1) 2 False
     = Num (18 + ln 2 / 10)
   \<and> generator_loss (logits 0) (transpose_t (fill (1, 6, 4, 1) 0) (0, 3, 1, 2))
        (transpose_t (fill (1, 6, 4, 1) 1) (0, 3, 1, 2)) 2 True = NaN"
proof -
  have l: "MSE (getitem (fill (1, 6, 4, 1) 0) full (None, Some 2) (None, Some 2) full)
               (getitem (fill (1, 6, 4, 1) 1) full (None, Some 2) (None, Some 2) full) = Num 1"
    by (simp add: MSE_def reduce_losses_def reduce_value_def empty_last_def getitem_def fill_def
        slice_len_def slice_start_def slice_stop_def slice_bound_def full_def)
  have r: "MSE (getitem (fill (1, 6, 4, 1) 0) full (Some (- 2), None) (Some (- 2), None) full)
               (getitem (fill (1, 6, 4, 1) 1) full (Some (- 2), None) (Some (- 2), None) full) = Num 1"
    by (simp add: MSE_def reduce_losses_def reduce_value_def empty_last_def getitem_def fill_def
        slice_len_def slice_start_def slice_stop_def slice_bound_def full_def)
  have c: "MSE (getitem (fill (1, 6, 4, 1) 0) full (Some 2, Some (- 2)) (Some 2, Some (- 2)) full)
               (getitem (fill (1, 6, 4, 1) 1) full (Some 2, Some (- 2)) (Some 2, Some (- 2)) full) = Num 0"
    by (simp add: MSE_def reduce_losses_def reduce_value_def empty_last_def getitem_def fill_def
        slice_len_def slice_start_def slice_stop_def slice_bound_def full_def)
  have a: "cross_entropy (ones_like (logits 0)) (logits 0) = Num (ln 2)"
    using adversarial_logits [of 0] by simp
  have cl: "generator_loss (logits 0) (fill (1, 6, 4, 1) 0) (fill (1, 6, 4, 1) 1) 2 False
     = Num (18 + ln 2 / 10)"
    unfolding generator_loss_def generator_loss_w_def Let_def
    by (simp only: l r c a if_True) simp
  have cf: "generator_loss (logits 0) (transpose_t (fill (1, 6, 4, 1) 0) (0, 3, 1, 2))
        (transpose_t (fill (1, 6, 4, 1) 1) (0, 3, 1, 2)) 2 True = NaN"
    by (simp add: generator_loss_def generator_loss_w_def Let_def MSE_num empty_last_def
      transpose_0312 getitem_def fill_def slice_len_def slice_start_def slice_stop_def
      slice_bound_def full_def)
  from cl cf show ?thesis by blast
qed

text \<open>
  Claim C10, amended. For every \<open>fake_output\<close>, every two channel-last tensors of one
  shape with at least one channel, and every overlap for which no slice the loss
  averages over is empty in width and not in height (which is so whenever height and
  width are equal), the generator loss computed by the channel-last branch is the
  generator loss of the channel-first transposes computed by the channel-first branch.
\<close>

theorem layouts_agree:
  assumes "shape y_true = shape y_pred" "0 < dim3 y_pred"
    "dim1 y_pred = dim2 y_pred
     \<or> (\<forall>s \<in> set (loss_slices overlap).
           slice_len (dim2 y_pred) s = 0 \<longrightarrow> slice_len (dim1 y_pred) s = 0)"
  shows "generator_loss fake_output y_true y_pred overlap False
         = generator_loss fake_output (transpose_t y_true (0, 3, 1, 2))
             (transpose_t y_pred (0, 3, 1, 2)) overlap True"
proof -
  let ?T = "\<lambda>t. transpose_t t (0, 3, 1, 2)"
  have cond: "slice_len (dim2 y_pred) s = 0 \<longrightarrow> slice_len (dim1 y_pred) s = 0"
    if "s \<in> set (loss_slices overlap)" for s
    using assms(3) that by auto
  show ?thesis
  proof (cases "overlap = 0")
    case True
    then have "dim2 y_pred = 0 \<longrightarrow> dim1 y_pred = 0"
      using cond [of full] by (simp add: loss_slices_def)
    with assms(2) have "MSE (?T y_true) (?T y_pred) = MSE y_true y_pred"
      by (rule MSE_transpose)
    with True show ?thesis
      by (simp add: generator_loss_def generator_loss_w_def)
  next
    case False
    then have part: "MSE (getitem (?T y_true) full full s s) (getitem (?T y_pred) full full s s)
              = MSE (getitem y_true full s s full) (getitem y_pred full s s full)"
      if "s \<in> {(Some overlap, Some (- overlap)), (None, Some overlap), (Some (- overlap), None)}"
      for s
      using that cond [of s] assms(2)
      by (intro MSE_slice_transpose) (auto simp: loss_slices_def)
    from False show ?thesis
      by (simp add: generator_loss_def generator_loss_w_def Let_def part)
  qed
qed

theorem layouts_agree_witness:
  "shape (fill (1, 4, 4, 1) 0) = shape (spot 1 2)
   \<and> 0 < dim3 (spot 1 2)
   \<and> dim1 (spot 1 2) = dim2 (spot 1 2)
   \<and> generator_loss (logits 1) (fill (1, 4, 4, 1) 0) (spot 1 2) 1 False
       = generator_loss (logits 1) (transpose_t (fill (1, 4, 4, 1) 0) (0, 3, 1, 2))
           (transpose_t (spot 1 2) (0, 3, 1, 2)) 1 True
   \<and> shape (fill (1, 6, 4, 1) 0) = shape (fill (1, 6, 4, 1) 1)
   \<and> 0 < dim3 (fill (1, 6, 4, 1) 1)
   \<and> generator_loss (logits 1) (fill (1, 6, 4, 1) 0) (fill (1, 6, 4, 1) 1) 1 False
       = generator_loss (logits 1) (transpose_t (fill (1, 6, 4, 1) 0) (0, 3, 1, 2))
           (transpose_t (fill (1, 6, 4, 1) 1) (0, 3, 1, 2)) 1 True"
proof -
  have sh: "shape (fill (1, 4, 4, 1) 0) = shape (spot 1 2)"
    by (simp add: shape_def fill_def spot_def)
  have ch: "0 < dim3 (spot 1 2)"
    by (simp add: spot_def)
  have sq: "dim1 (spot 1 2) = dim2 (spot 1 2)"
    by (simp add: spot_def)
  from sq have h: "dim1 (spot 1 2) = dim2 (spot 1 2)
     \<or> (\<forall>s \<in> set (loss_slices 1).
           slice_len (dim2 (spot 1 2)) s = 0 \<longrightarrow> slice_len (dim1 (spot 1 2)) s = 0)"
    by (rule disjI1)
  note one = layouts_agree [OF sh ch h, of "logits 1"]
  have sh': "shape (fill (1, 6, 4, 1) 0) = shape (fill (1, 6, 4, 1) 1)"
    by (simp add: shape_def fill_def)
  have ch': "0 < dim3 (fill (1, 6, 4, 1) 1)"
    by (simp add: fill_def)
  have "\<forall>s \<in> set (loss_slices 1).
           slice_len (dim2 (fill (1, 6, 4, 1) 1)) s = 0
           \<longrightarrow> slice_len (dim1 (fill (1, 6, 4, 1) 1)) s = 0"
    by (simp add: loss_slices_def fill_def slice_len_def slice_start_def slice_stop_def
        slice_bound_def)
  then have h': "dim1 (fill (1, 6, 4, 1) 1) = dim2 (fill (1, 6, 4, 1) 1)
     \<or> (\<forall>s \<in> set (loss_slices 1).
           slice_len (dim2 (fill (1, 6, 4, 1) 1)) s = 0
           \<longrightarrow> slice_len (dim1 (fill (1, 6, 4, 1) 1)) s = 0)"
    by (rule disjI2)
  note two = layouts_agree [OF sh' ch' h', of "logits 1"]
  from sh ch sq one sh' ch' two show ?thesis
    by blast
qed

subsection \<open>The discriminator loss\<close>

lemma discriminator_loss_num:
  "discriminator_loss real_output fake_output
     = (if empty_last real_output \<or> empty_last fake_output then NaN
        else Num (batch_mean_bce 1 real_output + batch_mean_bce 0 fake_output))"
  by (simp add: discriminator_loss_def cross_entropy_num cross_entropy_ones cross_entropy_zeros)

lemma batch_mean_bce_nonneg: "z = 0 \<or> z = 1 \<Longrightarrow> 0 \<le> batch_mean_bce z t"
  unfolding batch_mean_bce_def
  by (intro divide_nonneg_nonneg sum_nonneg) (auto simp: bce_one bce_zero)

lemma discriminator_loss_example:
  "discriminator_loss (logits 2) (logits (- 2)) = Num (2 * ln (1 + exp (- 2)))"
  by (simp add: discriminator_loss_num bce_mean_logits bce_one bce_zero)

text \<open>
  Claim C3, as stated, gives \<open>log(1+e^-2) + log(1+e^2)\<close>, about \<open>2.254\<close>, for the
  discriminator loss at the logits \<open>2\<close> for the real center and \<open>-2\<close> for the generated
  one. The loss there is another number, and it is not within a thousandth of \<open>2.254\<close>.
\<close>

theorem discriminator_loss_example_counterexample:
  "discriminator_loss (logits 2) (logits (- 2)) = Num (2 * ln (1 + exp (- 2)))
   \<and> discriminator_loss (logits 2) (logits (- 2)) \<noteq> Num (ln (1 + exp (- 2)) + ln (1 + exp 2))
   \<and> \<not> \<bar>2 * ln (1 + exp (- 2)) - 2254 / 1000\<bar> < (1 / 1000 :: real)"
proof -
  have a: "2 * ln (1 + exp (- 2)) \<noteq> ln (1 + exp (- 2)) + ln (1 + exp (2 :: real))"
    using softplus_minus_two_bounds softplus_neg [of "2::real"] by linarith
  have b: "\<not> \<bar>2 * ln (1 + exp (- 2)) - 2254 / 1000\<bar> < (1 / 1000 :: real)"
    using softplus_minus_two_bounds by linarith
  from a b discriminator_loss_example show ?thesis by simp
qed

text \<open>
  Claim C3, amended. For two tensors of logits, the discriminator loss is \<open>NaN\<close> when
  one of them has an empty last axis and a sample, and otherwise the number that is the
  mean binary cross-entropy of \<open>real_output\<close> against the label one plus the mean
  binary cross-entropy of \<open>fake_output\<close> against the label zero, both taken on the
  logits; that number is never negative. At the logits \<open>2\<close> and \<open>-2\<close> the loss is
  \<open>2 * log(1+e^-2)\<close>, which is \<open>0.254\<close> to within a thousandth.
\<close>

theorem discriminator_loss_bce:
  "discriminator_loss real_output fake_output
     = (if empty_last real_output \<or> empty_last fake_output then NaN
        else Num (batch_mean_bce 1 real_output + batch_mean_bce 0 fake_output))
   \<and> 0 \<le> batch_mean_bce 1 real_output + batch_mean_bce 0 fake_output
   \<and> \<not> empty_last (logits 2) \<and> \<not> empty_last (logits (- 2))
   \<and> discriminator_loss (logits 2) (logits (- 2)) = Num (2 * ln (1 + exp (- 2)))
   \<and> \<bar>2 * ln (1 + exp (- 2)) - 254 / 1000\<bar> < (1 / 1000 :: real)"
proof -
  have b: "0 \<le> batch_mean_bce 1 real_output + batch_mean_bce 0 fake_output"
    using batch_mean_bce_nonneg [of 1 real_output] batch_mean_bce_nonneg [of 0 fake_output]
    by simp
  have c: "\<bar>2 * ln (1 + exp (- 2)) - 254 / 1000\<bar> < (1 / 1000 :: real)"
    using softplus_minus_two_bounds by linarith
  from b c discriminator_loss_num [of real_output fake_output] discriminator_loss_example
  show ?thesis by simp
qed

section \<open>Properties of the two executors\<close>

lemma call_model_infer [simp]:
  "call_model m x False = (forward m False (trainable_variables m) (layer_state m) x, m)"
  by (simp add: call_model_def)

lemma call_model_train:
  "call_model m x True =
     (forward m True (trainable_variables m) (layer_state m) x,
      m\<lparr>layer_state := advance m (trainable_variables m) (layer_state m) x\<rparr>)"
  by (simp add: call_model_def)

text \<open>
  Claim C7. \<open>calc_losses\<close> calls the generator once and the discriminator twice, each
  time in inference mode, and leaves both models and both optimizers exactly as they
  were; so a second call on the same batch, with nothing in between, returns the same
  two losses.
\<close>

theorem calc_losses_pure:
  "(case calc_losses images real_centers overlap use_gpu st of
      (losses, st') \<Rightarrow>
        generator st' = generator st
      \<and> discriminator st' = discriminator st
      \<and> generator_optimizer st' = generator_optimizer st
      \<and> discriminator_optimizer st' = discriminator_optimizer st
      \<and> calls st' = calls st @ [Call_generator False, Call_discriminator False,
                                  Call_discriminator False]
      \<and> fst (calc_losses images real_centers overlap use_gpu st') = losses)"
proof -
  let ?st3 = "st\<lparr>calls := calls st @ [Call_generator False, Call_discriminator False,
                                         Call_discriminator False]\<rparr>"
  have after: "snd (calc_losses images real_centers overlap use_gpu st) = ?st3"
    by (simp add: calc_losses_def call_generator_def call_discriminator_def Let_def)
  have again: "fst (calc_losses images real_centers overlap use_gpu ?st3)
               = fst (calc_losses images real_centers overlap use_gpu st)"
    by (simp add: calc_losses_def call_generator_def call_discriminator_def Let_def)
  from after again show ?thesis
    by (cases "calc_losses images real_centers overlap use_gpu st") simp
qed

text \<open>
  Claim C2. \<open>take_step\<close> makes, in this order, a training-mode pass of the
  discriminator on the real centers, an inference-mode pass of the generator, a
  training-mode pass of the discriminator on the generated centers, one update of the
  discriminator, a training-mode pass of the generator, and one update of the
  generator. The discriminator it leaves has the variables its optimizer's update rule
  returns for the gradient of the discriminator loss, and the optimizer has applied one
  more update and holds the slots the rule returns; likewise the generator and its
  optimizer, for the gradient of the generator loss. The discriminator loss returned is
  that of the two outputs of the discriminator before its update. The generator loss
  returned is computed from the output the discriminator gave on the generated centers
  before its update, and from the centers of the training-mode generator pass;
  whatever the discriminator's optimizer does to the discriminator, the generator loss
  is the same.
\<close>

theorem take_step_order:
  "(case take_step gradient images real_centers overlap use_gpu st of
      ((gen_loss, disc_loss), st') \<Rightarrow>
        (let g = generator st; d = discriminator st;
             g_opt = generator_optimizer st; d_opt = discriminator_optimizer st;
             real_output = forward d True (trainable_variables d) (layer_state d) real_centers;
             d_layers = advance d (trainable_variables d) (layer_state d) real_centers;
             generated_centers = forward g False (trainable_variables g) (layer_state g) images;
             stale_fake_output =
               forward d True (trainable_variables d) d_layers generated_centers;
             d_layers' = advance d (trainable_variables d) d_layers generated_centers;
             d_grads = gradient
               (\<lambda>v. discriminator_loss (forward d True v (layer_state d) real_centers)
                      (forward d True v d_layers generated_centers))
               (trainable_variables d);
             d_update = update_rule d_opt (learning_rate d_opt) (iterations d_opt) (slots d_opt)
                          d_grads (trainable_variables d);
             fresh_centers = forward g True (trainable_variables g) (layer_state g) images;
             g_layers = advance g (trainable_variables g) (layer_state g) images;
             g_grads = gradient
               (\<lambda>v. generator_loss stale_fake_output real_centers
                      (forward g True v (layer_state g) images) overlap use_gpu)
               (trainable_variables g);
             g_update = update_rule g_opt (learning_rate g_opt) (iterations g_opt) (slots g_opt)
                          g_grads (trainable_variables g)
         in calls st' = calls st @ [Call_discriminator True, Call_generator False,
                                     Call_discriminator True, Apply_discriminator_gradients,
                                     Call_generator True, Apply_generator_gradients]
          \<and> disc_loss = discriminator_loss real_output stale_fake_output
          \<and> gen_loss = generator_loss stale_fake_output real_centers fresh_centers overlap use_gpu
          \<and> discriminator st'
              = d\<lparr>trainable_variables := snd d_update, layer_state := d_layers'\<rparr>
          \<and> discriminator_optimizer st'
              = d_opt\<lparr>iterations := Suc (iterations d_opt), slots := fst d_update\<rparr>
          \<and> generator st' = g\<lparr>trainable_variables := snd g_update, layer_state := g_layers\<rparr>
          \<and> generator_optimizer st'
              = g_opt\<lparr>iterations := Suc (iterations g_opt), slots := fst g_update\<rparr>
          \<and> (\<forall>opt. fst (fst (take_step gradient images real_centers overlap use_gpu
                                 (st\<lparr>discriminator_optimizer := opt\<rparr>))) = gen_loss)))"
proof -
  let ?g = "generator st" and ?d = "discriminator st"
  let ?d_layers = "advance ?d (trainable_variables ?d) (layer_state ?d) real_centers"
  let ?generated = "forward ?g False (trainable_variables ?g) (layer_state ?g) images"
  let ?st1 = "st\<lparr>discriminator := ?d\<lparr>layer_state := ?d_layers\<rparr>,
                    calls := calls st @ [Call_discriminator True]\<rparr>"
  have first: "call_discriminator real_centers True st
        = (forward ?d True (trainable_variables ?d) (layer_state ?d) real_centers, ?st1)"
    by (simp add: call_discriminator_def call_model_train)
  have second: "call_generator images False ?st1
        = (?generated, ?st1\<lparr>calls := calls ?st1 @ [Call_generator False]\<rparr>)"
    by (simp add: call_generator_def)
  show ?thesis
    unfolding take_step_def first second
    by (simp add: call_generator_def call_discriminator_def call_model_train
        apply_generator_gradients_def apply_discriminator_gradients_def apply_gradients_def
        Let_def split: prod.splits)
qed

text \<open>
  On the toy networks the step moves both variables, the discriminator's from \<open>0\<close> to
  \<open>-1\<close> and the generator's from \<open>0\<close> to \<open>-10\<close>. The generator loss of the step is
  computed from the verdict \<open>0\<close> the discriminator gave before its update, although
  after the update its verdict on the same centers is \<open>-1\<close>, which would give another
  loss.
\<close>

lemma generator_loss_toy:
  "generator_loss (logits x) toy_image toy_image 0 False = Num (ln (1 + exp (- x)) / 10)"
  by (simp add: generator_loss_def generator_loss_w_def adversarial_logits MSE_def
      reduce_losses_def reduce_value_def empty_last_def fill_def toy_image_def)

lemma take_step_toy:
  "fst (fst (take_step unit_gradient toy_image toy_image 0 False toy_networks)) = Num (ln 2 / 10)"
  "trainable_variables (discriminator toy_networks) = 0"
  "trainable_variables (discriminator (snd (take_step unit_gradient toy_image toy_image 0 False
     toy_networks))) = - 1"
  "trainable_variables (generator toy_networks) = 0"
  "trainable_variables (generator (snd (take_step unit_gradient toy_image toy_image 0 False
     toy_networks))) = - 10"
  "fst (call_model (discriminator toy_networks) toy_image True) = logits 0"
  "fst (call_model (discriminator (snd (take_step unit_gradient toy_image toy_image 0 False
          toy_networks))) toy_image True) = logits (- 1)"
  "generator_loss (logits (- 1)) toy_image toy_image 0 False
     \<noteq> fst (fst (take_step unit_gradient toy_image toy_image 0 False toy_networks))"
proof -
  note defs = take_step_def call_generator_def call_discriminator_def call_model_def
      apply_generator_gradients_def apply_discriminator_gradients_def apply_gradients_def
      toy_networks_def build_networks_def toy_model_def Adam_def identity_pass_def
      constant_verdict_def descent_def unit_gradient_def Let_def
  show 1: "fst (fst (take_step unit_gradient toy_image toy_image 0 False toy_networks))
           = Num (ln 2 / 10)"
    by (simp add: defs generator_loss_toy)
  show "trainable_variables (discriminator toy_networks) = 0"
    by (simp add: defs)
  show "trainable_variables (discriminator (snd (take_step unit_gradient toy_image toy_image 0
          False toy_networks))) = - 1"
    by (simp add: defs)
  show "trainable_variables (generator toy_networks) = 0"
    by (simp add: defs)
  show "trainable_variables (generator (snd (take_step unit_gradient toy_image toy_image 0 False
          toy_networks))) = - 10"
    by (simp add: defs)
  show "fst (call_model (discriminator toy_networks) toy_image True) = logits 0"
    by (simp add: defs)
  show "fst (call_model (discriminator (snd (take_step unit_gradient toy_image toy_image 0 False
          toy_networks))) toy_image True) = logits (- 1)"
    by (simp add: defs)
  have "ln (2::real) < ln (1 + exp 1)"
    by (subst ln_less_cancel_iff) (simp_all add: add_pos_pos)
  then show "generator_loss (logits (- 1)) toy_image toy_image 0 False
     \<noteq> fst (fst (take_step unit_gradient toy_image toy_image 0 False toy_networks))"
    unfolding 1 generator_loss_toy by simp
qed

text \<open>
  Claim C9. \<open>train\<close> builds two Adam optimizers, the discriminator's with learning
  rate \<open>lr\<close> and the generator's with ten times that, for every \<open>lr\<close>. They are
  independent: an update through one leaves the other as it is, and a training step
  changes neither learning rate.
\<close>

theorem optimizer_learning_rates:
  "(let st = build_networks build_autoencoder build_discriminator rule empty_slots use_gpu lr
    in learning_rate (discriminator_optimizer st) = lr
     \<and> learning_rate (generator_optimizer st) = 10 * learning_rate (discriminator_optimizer st))
   \<and> generator_optimizer (apply_discriminator_gradients grads st) = generator_optimizer st
   \<and> discriminator_optimizer (apply_generator_gradients grads st) = discriminator_optimizer st
   \<and> learning_rate (generator_optimizer (snd (take_step gradient images real_centers overlap gpu st)))
       = learning_rate (generator_optimizer st)
   \<and> learning_rate (discriminator_optimizer (snd (take_step gradient images real_centers overlap gpu st)))
       = learning_rate (discriminator_optimizer st)"
  by (simp add: build_networks_def Adam_def take_step_def call_generator_def call_discriminator_def
      call_model_train apply_generator_gradients_def apply_discriminator_gradients_def
      apply_gradients_def Let_def split: prod.splits)

section \<open>Properties of the epoch loop\<close>

text \<open>
  The properties are stated for \<open>train_loop\<close> with any two executors and any networks;
  \<open>train\<close> is \<open>train_loop\<close> with \<open>take_step\<close>, \<open>calc_losses\<close> and the networks it
  builds, so each of them holds for \<open>train\<close>.
\<close>

lemma scalar_add_assoc:
  "scalar_add (scalar_add x y) z = scalar_add x (scalar_add y z)"
  by (cases x; cases y; cases z) simp_all

lemma scalar_add_zero [simp]: "scalar_add (Num 0) x = x"
  by (cases x) simp_all

lemma scalar_sum_numbers [simp]: "scalar_sum (map Num xs) = Num (sum_list xs)"
  by (induction xs) simp_all

lemma for_batches_result:
  "for_batches exec overlap use_gpu ds n g d c vars =
     (networks_after exec overlap use_gpu ds n,
      scalar_add g (scalar_sum (map fst (batch_losses exec overlap use_gpu ds n))),
      scalar_add d (scalar_sum (map snd (batch_losses exec overlap use_gpu ds n))),
      c + length ds,
      vars_after use_gpu ds vars)"
proof (induction ds arbitrary: n g d c vars)
  case Nil
  show ?case by (cases g; cases d) simp_all
next
  case (Cons b ds)
  then show ?case
    by (simp add: Let_def scalar_add_assoc split: prod.splits)
qed

lemma vars_after_None: "vars_after use_gpu ds vars = None \<longleftrightarrow> ds = [] \<and> vars = None"
  by (induction ds arbitrary: vars) simp_all

lemma length_batch_losses [simp]:
  "length (batch_losses exec overlap use_gpu ds n) = length ds"
  by (induction ds arbitrary: n) (simp_all add: Let_def)

lemma run_epoch_Inr:
  assumes "run_epoch step eval io_ok tr va overlap use_gpu epoch t = Inr t'"
  shows "networks t' = after_epoch step eval tr va overlap use_gpu (networks t)"
    and "io_log t' = io_log t @ dumps epoch"
    and "list_train_gen_loss t' = list_train_gen_loss t
           @ [mean (map fst (batch_losses step overlap use_gpu tr (networks t)))]"
    and "list_train_disc_loss t' = list_train_disc_loss t
           @ [mean (map snd (batch_losses step overlap use_gpu tr (networks t)))]"
    and "list_val_gen_loss t' = list_val_gen_loss t
           @ [mean (map fst (batch_losses eval overlap use_gpu va
                 (networks_after step overlap use_gpu tr (networks t))))]"
    and "list_val_disc_loss t' = list_val_disc_loss t
           @ [mean (map snd (batch_losses eval overlap use_gpu va
                 (networks_after step overlap use_gpu tr (networks t))))]"
    and "tr \<noteq> []" and "va \<noteq> []"
    and "\<forall>a \<in> snd ` set (dumps epoch). io_ok epoch a"
  using assms
  unfolding run_epoch_def for_batches_result
  by (auto simp: normalize_def save_pictures_def checkpoint_save_def perform_def dump_due_def
      dumps_def mean_def after_epoch_def
      split: if_splits sum.splits option.splits)


lemma upt_0_Suc_shift: "[0..<Suc k] = 0 # map Suc [0..<k]"
  by (simp add: upt_conv_Cons map_Suc_upt del: upt_Suc)

lemma for_epochs_Inr:
  assumes "for_epochs step eval io_ok tr va overlap use_gpu es t = Inr t'"
  shows "networks t' = ((after_epoch step eval tr va overlap use_gpu) ^^ length es) (networks t)"
    and "io_log t' = io_log t @ concat (map dumps es)"
    and "list_train_gen_loss t' = list_train_gen_loss t
           @ map (\<lambda>k. mean (map fst (batch_losses step overlap use_gpu tr
                   (((after_epoch step eval tr va overlap use_gpu) ^^ k) (networks t)))))
               [0..<length es]"
    and "list_train_disc_loss t' = list_train_disc_loss t
           @ map (\<lambda>k. mean (map snd (batch_losses step overlap use_gpu tr
                   (((after_epoch step eval tr va overlap use_gpu) ^^ k) (networks t)))))
               [0..<length es]"
    and "list_val_gen_loss t' = list_val_gen_loss t
           @ map (\<lambda>k. mean (map fst (batch_losses eval overlap use_gpu va
                   (networks_after step overlap use_gpu tr
                     (((after_epoch step eval tr va overlap use_gpu) ^^ k) (networks t))))))
               [0..<length es]"
    and "list_val_disc_loss t' = list_val_disc_loss t
           @ map (\<lambda>k. mean (map snd (batch_losses eval overlap use_gpu va
                   (networks_after step overlap use_gpu tr
                     (((after_epoch step eval tr va overlap use_gpu) ^^ k) (networks t))))))
               [0..<length es]"
    and "\<forall>e \<in> set es. \<forall>a \<in> snd ` set (dumps e). io_ok e a"
    and "es \<noteq> [] \<longrightarrow> tr \<noteq> [] \<and> va \<noteq> []"
  using assms
proof (induction es arbitrary: t)
  case Nil
  {
    case 1 then show ?case by simp
  next
    case 2 then show ?case by simp
  next
    case 3 then show ?case by simp
  next
    case 4 then show ?case by simp
  next
    case 5 then show ?case by simp
  next
    case 6 then show ?case by simp
  next
    case 7 then show ?case by simp
  next
    case 8 then show ?case by simp
  }
next
  case (Cons e es)
  {
    case 1
    then obtain t1 where a: "run_epoch step eval io_ok tr va overlap use_gpu e t = Inr t1"
      and b: "for_epochs step eval io_ok tr va overlap use_gpu es t1 = Inr t'"
      by (auto split: sum.splits)
    show ?case using Cons.IH(1) [OF b] run_epoch_Inr(1) [OF a] by (simp add: funpow_swap1)
  next
    case 2
    then obtain t1 where a: "run_epoch step eval io_ok tr va overlap use_gpu e t = Inr t1"
      and b: "for_epochs step eval io_ok tr va overlap use_gpu es t1 = Inr t'"
      by (auto split: sum.splits)
    show ?case using Cons.IH(2) [OF b] run_epoch_Inr(2) [OF a] by simp
  next
    case 3
    then obtain t1 where a: "run_epoch step eval io_ok tr va overlap use_gpu e t = Inr t1"
      and b: "for_epochs step eval io_ok tr va overlap use_gpu es t1 = Inr t'"
      by (auto split: sum.splits)
    show ?case using Cons.IH(3) [OF b] run_epoch_Inr(1,3) [OF a]
      by (simp add: upt_0_Suc_shift funpow_swap1 comp_def del: upt_Suc)
  next
    case 4
    then obtain t1 where a: "run_epoch step eval io_ok tr va overlap use_gpu e t = Inr t1"
      and b: "for_epochs step eval io_ok tr va overlap use_gpu es t1 = Inr t'"
      by (auto split: sum.splits)
    show ?case using Cons.IH(4) [OF b] run_epoch_Inr(1,4) [OF a]
      by (simp add: upt_0_Suc_shift funpow_swap1 comp_def del: upt_Suc)
  next
    case 5
    then obtain t1 where a: "run_epoch step eval io_ok tr va overlap use_gpu e t = Inr t1"
      and b: "for_epochs step eval io_ok tr va overlap use_gpu es t1 = Inr t'"
      by (auto split: sum.splits)
    show ?case using Cons.IH(5) [OF b] run_epoch_Inr(1,5) [OF a]
      by (simp add: upt_0_Suc_shift funpow_swap1 comp_def del: upt_Suc)
  next
    case 6
    then obtain t1 where a: "run_epoch step eval io_ok tr va overlap use_gpu e t = Inr t1"
      and b: "for_epochs step eval io_ok tr va overlap use_gpu es t1 = Inr t'"
      by (auto split: sum.splits)
    show ?case using Cons.IH(6) [OF b] run_epoch_Inr(1,6) [OF a]
      by (simp add: upt_0_Suc_shift funpow_swap1 comp_def del: upt_Suc)
  next
    case 7
    then obtain t1 where a: "run_epoch step eval io_ok tr va overlap use_gpu e t = Inr t1"
      and b: "for_epochs step eval io_ok tr va overlap use_gpu es t1 = Inr t'"
      by (auto split: sum.splits)
    show ?case using Cons.IH(7) [OF b] run_epoch_Inr(9) [OF a] by simp
  next
    case 8
    then obtain t1 where a: "run_epoch step eval io_ok tr va overlap use_gpu e t = Inr t1"
      and b: "for_epochs step eval io_ok tr va overlap use_gpu es t1 = Inr t'"
      by (auto split: sum.splits)
    show ?case using run_epoch_Inr(7,8) [OF a] by simp
  }
qed


lemma for_epochs_append:
  "for_epochs step eval io_ok tr va overlap use_gpu (xs @ ys) t =
     (case for_epochs step eval io_ok tr va overlap use_gpu xs t of
        Inl e \<Rightarrow> Inl e
      | Inr t' \<Rightarrow> for_epochs step eval io_ok tr va overlap use_gpu ys t')"
  by (induction xs arbitrary: t) (simp_all split: sum.splits)

lemma run_epoch_succeeds:
  assumes "tr \<noteq> []" "va \<noteq> []" "\<forall>a \<in> snd ` set (dumps e). io_ok e a"
  shows "\<exists>t'. run_epoch step eval io_ok tr va overlap use_gpu e t = Inr t'"
proof -
  obtain b1 where b1: "vars_after use_gpu tr (batch_vars t) = Some b1"
    using vars_after_None [of use_gpu tr "batch_vars t"] assms(1) by (cases "vars_after use_gpu tr (batch_vars t)") auto
  obtain b2 where b2: "vars_after use_gpu va (Some b1) = Some b2"
    using vars_after_None [of use_gpu va "Some b1"] by (cases "vars_after use_gpu va (Some b1)") auto
  show ?thesis
  proof (cases "dump_due e")
    case True
    then have "dumps e = [(e, Save_pictures ''train''), (e, Checkpoint_save),
                          (e, Save_pictures ''val'')]"
      by (auto simp: dumps_def dump_due_def)
    with assms(3) have "io_ok e (Save_pictures ''train'')" "io_ok e Checkpoint_save"
      "io_ok e (Save_pictures ''val'')"
      by simp_all
    with True assms(1,2) show ?thesis
      unfolding run_epoch_def for_batches_result
      by (simp add: normalize_def save_pictures_def checkpoint_save_def perform_def b1 b2)
  next
    case False
    with assms(1,2) show ?thesis
      unfolding run_epoch_def for_batches_result
      by (simp add: normalize_def)
  qed
qed

lemma for_epochs_succeeds:
  assumes "tr \<noteq> []" "va \<noteq> []" "\<forall>e \<in> set es. \<forall>a \<in> snd ` set (dumps e). io_ok e a"
  shows "\<exists>t'. for_epochs step eval io_ok tr va overlap use_gpu es t = Inr t'"
  using assms(3)
proof (induction es arbitrary: t)
  case Nil
  then show ?case by simp
next
  case (Cons e es)
  then have "\<forall>a \<in> snd ` set (dumps e). io_ok e a" by simp
  with assms(1,2) have "\<exists>t1. run_epoch step eval io_ok tr va overlap use_gpu e t = Inr t1"
    by (rule run_epoch_succeeds)
  then obtain t1 where "run_epoch step eval io_ok tr va overlap use_gpu e t = Inr t1" by blast
  moreover have "\<exists>t'. for_epochs step eval io_ok tr va overlap use_gpu es t1 = Inr t'"
    using Cons.prems by (intro Cons.IH) simp
  ultimately show ?case by auto
qed

lemma run_epoch_fails:
  assumes "tr \<noteq> []" "va \<noteq> []" "dumps e = pre @ (e, a) # post"
    "\<forall>x \<in> set pre. io_ok e (snd x)" "\<not> io_ok e a"
  shows "run_epoch step eval io_ok tr va overlap use_gpu e t = Inl (OSError e a)"
proof -
  obtain b1 where b1: "vars_after use_gpu tr (batch_vars t) = Some b1"
    using vars_after_None [of use_gpu tr "batch_vars t"] assms(1) by (cases "vars_after use_gpu tr (batch_vars t)") auto
  obtain b2 where b2: "vars_after use_gpu va (Some b1) = Some b2"
    using vars_after_None [of use_gpu va "Some b1"] by (cases "vars_after use_gpu va (Some b1)") auto
  have due: "dump_due e" "dumps e = [(e, Save_pictures ''train''), (e, Checkpoint_save), (e, Save_pictures ''val'')]"
    using assms(3) by (auto simp: dumps_def dump_due_def split: if_splits)
  from assms(3) due(2) consider
      "pre = []" "a = Save_pictures ''train''"
    | "pre = [(e, Save_pictures ''train'')]" "a = Checkpoint_save"
    | "pre = [(e, Save_pictures ''train''), (e, Checkpoint_save)]" "a = Save_pictures ''val''"
    by (auto simp: Cons_eq_append_conv)
  then show ?thesis
  proof cases
    case 1
    with assms(5) due(1) show ?thesis
      unfolding run_epoch_def for_batches_result
      by (simp add: save_pictures_def perform_def b1)
  next
    case 2
    with assms(4,5) due(1) show ?thesis
      unfolding run_epoch_def for_batches_result
      by (simp add: save_pictures_def checkpoint_save_def perform_def b1)
  next
    case 3
    with assms(4,5) due(1) show ?thesis
      unfolding run_epoch_def for_batches_result
      by (simp add: save_pictures_def checkpoint_save_def perform_def b1 b2)
  qed
qed

lemma epochs_with_dumps:
  assumes "a \<in> {Save_pictures ''train'', Checkpoint_save, Save_pictures ''val''}"
  shows "epochs_with a (concat (map dumps es)) = filter (\<lambda>e. e = 0 \<or> (e + 1) mod 5 = 0) es"
  using assms by (induction es) (auto simp: epochs_with_def dumps_def)

lemma epochs_with_append:
  "epochs_with a (xs @ ys) = epochs_with a xs @ epochs_with a ys"
  by (simp add: epochs_with_def)

lemma train_loop_Inr:
  assumes "train_loop step eval io_ok tr va epochs overlap use_gpu n = Inr t"
  obtains t0 where
    "for_epochs step eval io_ok tr va overlap use_gpu [0..<nat epochs]
       \<lparr>networks = n, batch_vars = None,
        list_train_gen_loss = [], list_train_disc_loss = [],
        list_val_gen_loss = [], list_val_disc_loss = [], io_log = []\<rparr> = Inr t0"
    "t = t0\<lparr>io_log := io_log t0 @ [(nat epochs, Plot_loss)]\<rparr>"
  using assms
  by (auto simp: train_loop_def perform_def split: sum.splits if_splits)

lemma cadence_ten: "filter (\<lambda>e. e = 0 \<or> (e + 1) mod 5 = 0) [0..<10] = [0, 4, 9::nat]"
  by (simp add: upt_rec)

text \<open>
  Claim C5. In a run of \<open>train\<close> that completes, the writes are, epoch by epoch and in
  this order, the training pictures, the checkpoint and the validation pictures at
  epoch index \<open>0\<close> and at every index \<open>e\<close> with \<open>e + 1\<close> divisible by five, nothing at
  any other index, and the plot at the end. Over ten epochs each of the three happens at
  the indices \<open>0\<close>, \<open>4\<close> and \<open>9\<close>.
\<close>

theorem dump_cadence:
  assumes "train_loop step eval io_ok tr va epochs overlap use_gpu n = Inr t"
  shows "io_log t = concat (map dumps [0..<nat epochs]) @ [(nat epochs, Plot_loss)]
       \<and> epochs_with Checkpoint_save (io_log t)
           = filter (\<lambda>e. e = 0 \<or> (e + 1) mod 5 = 0) [0..<nat epochs]
       \<and> epochs_with (Save_pictures ''train'') (io_log t)
           = filter (\<lambda>e. e = 0 \<or> (e + 1) mod 5 = 0) [0..<nat epochs]
       \<and> epochs_with (Save_pictures ''val'') (io_log t)
           = filter (\<lambda>e. e = 0 \<or> (e + 1) mod 5 = 0) [0..<nat epochs]
       \<and> (epochs = 10 \<longrightarrow>
             epochs_with Checkpoint_save (io_log t) = [0, 4, 9]
           \<and> epochs_with (Save_pictures ''train'') (io_log t) = [0, 4, 9]
           \<and> epochs_with (Save_pictures ''val'') (io_log t) = [0, 4, 9])"
proof -
  from assms obtain t0 where
    t0: "for_epochs step eval io_ok tr va overlap use_gpu [0..<nat epochs]
       \<lparr>networks = n, batch_vars = None,
        list_train_gen_loss = [], list_train_disc_loss = [],
        list_val_gen_loss = [], list_val_disc_loss = [], io_log = []\<rparr> = Inr t0"
    and t: "t = t0\<lparr>io_log := io_log t0 @ [(nat epochs, Plot_loss)]\<rparr>"
    by (rule train_loop_Inr)
  have log: "io_log t = concat (map dumps [0..<nat epochs]) @ [(nat epochs, Plot_loss)]"
    using for_epochs_Inr(2) [OF t0] t by simp
  have w: "epochs_with a (io_log t) = filter (\<lambda>e. e = 0 \<or> (e + 1) mod 5 = 0) [0..<nat epochs]"
    if "a \<in> {Save_pictures ''train'', Checkpoint_save, Save_pictures ''val''}" for a
    unfolding log epochs_with_append epochs_with_dumps [OF that]
    using that by (auto simp: epochs_with_def)
  have ten: "epochs_with a (io_log t) = [0, 4, 9]"
    if "a \<in> {Save_pictures ''train'', Checkpoint_save, Save_pictures ''val''}" "epochs = 10" for a
    using w [OF that(1)] that(2) cadence_ten by simp
  from log w ten show ?thesis by simp
qed


lemma train_loop_succeeds:
  assumes "tr \<noteq> []" "va \<noteq> []" "\<forall>e a. io_ok e a"
  shows "\<exists>t. train_loop step eval io_ok tr va epochs overlap use_gpu n = Inr t"
proof -
  have "\<forall>e \<in> set [0..<nat epochs]. \<forall>a \<in> snd ` set (dumps e). io_ok e a"
    using assms(3) by simp
  with assms(1,2) have "\<exists>t0. for_epochs step eval io_ok tr va overlap use_gpu [0..<nat epochs]
       \<lparr>networks = n, batch_vars = None,
        list_train_gen_loss = [], list_train_disc_loss = [],
        list_val_gen_loss = [], list_val_disc_loss = [], io_log = []\<rparr> = Inr t0"
    by (rule for_epochs_succeeds)
  then show ?thesis
    using assms(3) by (auto simp: train_loop_def perform_def)
qed

theorem dump_cadence_witness:
  "\<not> isl (train_loop stub_step stub_eval io_never_fails [blank_batch] [blank_batch] 10 0 False
            ([], []))
   \<and> epochs_with Checkpoint_save
        (io_log (projr (train_loop stub_step stub_eval io_never_fails [blank_batch] [blank_batch]
                          10 0 False ([], [])))) = [0, 4, 9]"
proof -
  obtain t where t: "train_loop stub_step stub_eval io_never_fails [blank_batch] [blank_batch]
                       10 0 False ([], []) = Inr t"
    using train_loop_succeeds [where tr = "[blank_batch]" and va = "[blank_batch]"
        and io_ok = io_never_fails and step = stub_step and eval = stub_eval and epochs = 10
        and overlap = 0 and use_gpu = False and n = "([], [])"]
    by (auto simp: io_never_fails_def)
  from dump_cadence [OF t] have "epochs_with Checkpoint_save (io_log t) = [0, 4, 9]"
    by blast
  with t show ?thesis by simp
qed

lemma histories_of_run:
  assumes "train_loop step eval io_ok tr va epochs overlap use_gpu n = Inr t"
  shows "(let start = (\<lambda>k. ((after_epoch step eval tr va overlap use_gpu) ^^ k) n);
              trained = (\<lambda>k. networks_after step overlap use_gpu tr (start k))
          in list_train_gen_loss t
               = map (\<lambda>k. scalar_div (scalar_sum (map fst (batch_losses step overlap use_gpu tr (start k))))
                            (length tr)) [0..<nat epochs]
           \<and> list_train_disc_loss t
               = map (\<lambda>k. scalar_div (scalar_sum (map snd (batch_losses step overlap use_gpu tr (start k))))
                            (length tr)) [0..<nat epochs]
           \<and> list_val_gen_loss t
               = map (\<lambda>k. scalar_div (scalar_sum (map fst (batch_losses eval overlap use_gpu va (trained k))))
                            (length va)) [0..<nat epochs]
           \<and> list_val_disc_loss t
               = map (\<lambda>k. scalar_div (scalar_sum (map snd (batch_losses eval overlap use_gpu va (trained k))))
                            (length va)) [0..<nat epochs])"
proof -
  from assms obtain t0 where
    t0: "for_epochs step eval io_ok tr va overlap use_gpu [0..<nat epochs]
       \<lparr>networks = n, batch_vars = None,
        list_train_gen_loss = [], list_train_disc_loss = [],
        list_val_gen_loss = [], list_val_disc_loss = [], io_log = []\<rparr> = Inr t0"
    and t: "t = t0\<lparr>io_log := io_log t0 @ [(nat epochs, Plot_loss)]\<rparr>"
    by (rule train_loop_Inr)
  show ?thesis
    using for_epochs_Inr(3-6) [OF t0] t by (simp add: mean_def Let_def)
qed

lemma stub_run:
  "\<exists>t. train_loop stub_step stub_eval io_never_fails
            [blank_batch, blank_batch, blank_batch] [blank_batch, blank_batch] 1 0 False
            ([1, 2, 3], [4, 5]) = Inr t"
  using train_loop_succeeds [where tr = "[blank_batch, blank_batch, blank_batch]"
      and va = "[blank_batch, blank_batch]" and io_ok = io_never_fails and step = stub_step
      and eval = stub_eval and epochs = 1 and overlap = 0 and use_gpu = False
      and n = "([1, 2, 3], [4, 5])"]
  by (auto simp: io_never_fails_def)

lemma stub_example:
  "list_train_gen_loss
        (projr (train_loop stub_step stub_eval io_never_fails
                  [blank_batch, blank_batch, blank_batch] [blank_batch, blank_batch] 1 0 False
                  ([1, 2, 3], [4, 5]))) = [Num 2]
   \<and> list_val_gen_loss
        (projr (train_loop stub_step stub_eval io_never_fails
                  [blank_batch, blank_batch, blank_batch] [blank_batch, blank_batch] 1 0 False
                  ([1, 2, 3], [4, 5]))) = [Num (9 / 2)]"
proof -
  from stub_run obtain t where t: "train_loop stub_step stub_eval io_never_fails
            [blank_batch, blank_batch, blank_batch] [blank_batch, blank_batch] 1 0 False
            ([1, 2, 3], [4, 5]) = Inr t"
    by blast
  from histories_of_run [OF t] t show ?thesis
    by (simp add: Let_def stub_step_def stub_eval_def)
qed

text \<open>
  Claim C6. In a run of \<open>train\<close> that completes, each of the four histories has one
  entry per epoch, in epoch order: the sum of the generator (or discriminator) losses
  the training step returned over the batches of the training dataset divided by the
  number of those batches, and the same for the evaluation step over the validation
  dataset. With a stub step returning \<open>1, 2, 3\<close> over three batches and a stub
  evaluation returning \<open>4, 5\<close> over two, the training mean is \<open>2\<close> and the validation
  mean is \<open>4.5\<close>.
\<close>

theorem epoch_means:
  assumes "train_loop step eval io_ok tr va epochs overlap use_gpu n = Inr t"
  shows "(let start = (\<lambda>k. ((after_epoch step eval tr va overlap use_gpu) ^^ k) n);
              trained = (\<lambda>k. networks_after step overlap use_gpu tr (start k))
          in list_train_gen_loss t
               = map (\<lambda>k. scalar_div (scalar_sum (map fst (batch_losses step overlap use_gpu tr (start k))))
                            (length tr)) [0..<nat epochs]
           \<and> list_train_disc_loss t
               = map (\<lambda>k. scalar_div (scalar_sum (map snd (batch_losses step overlap use_gpu tr (start k))))
                            (length tr)) [0..<nat epochs]
           \<and> list_val_gen_loss t
               = map (\<lambda>k. scalar_div (scalar_sum (map fst (batch_losses eval overlap use_gpu va (trained k))))
                            (length va)) [0..<nat epochs]
           \<and> list_val_disc_loss t
               = map (\<lambda>k. scalar_div (scalar_sum (map snd (batch_losses eval overlap use_gpu va (trained k))))
                            (length va)) [0..<nat epochs])
       \<and> list_train_gen_loss
            (projr (train_loop stub_step stub_eval io_never_fails
                      [blank_batch, blank_batch, blank_batch] [blank_batch, blank_batch] 1 0 False
                      ([1, 2, 3], [4, 5]))) = [Num 2]
       \<and> list_val_gen_loss
            (projr (train_loop stub_step stub_eval io_never_fails
                      [blank_batch, blank_batch, blank_batch] [blank_batch, blank_batch] 1 0 False
                      ([1, 2, 3], [4, 5]))) = [Num (9 / 2)]"
  using histories_of_run [OF assms] stub_example by blast

theorem epoch_means_witness:
  "\<not> isl (train_loop stub_step stub_eval io_never_fails
            [blank_batch, blank_batch, blank_batch] [blank_batch, blank_batch] 1 0 False
            ([1, 2, 3], [4, 5]))
   \<and> list_train_disc_loss
        (projr (train_loop stub_step stub_eval io_never_fails
                  [blank_batch, blank_batch, blank_batch] [blank_batch, blank_batch] 1 0 False
                  ([1, 2, 3], [4, 5]))) = [Num 2]
   \<and> list_val_disc_loss
        (projr (train_loop stub_step stub_eval io_never_fails
                  [blank_batch, blank_batch, blank_batch] [blank_batch, blank_batch] 1 0 False
                  ([1, 2, 3], [4, 5]))) = [Num (9 / 2)]"
proof -
  from stub_run obtain t where t: "train_loop stub_step stub_eval io_never_fails
            [blank_batch, blank_batch, blank_batch] [blank_batch, blank_batch] 1 0 False
            ([1, 2, 3], [4, 5]) = Inr t"
    by blast
  from epoch_means [OF t] t show ?thesis
    by (simp add: Let_def stub_step_def stub_eval_def)
qed

lemma first_epoch_empty_validation:
  assumes "tr \<noteq> []" "io_ok 0 (Save_pictures ''train'')" "io_ok 0 Checkpoint_save"
    "io_ok 0 (Save_pictures ''val'')"
  shows "run_epoch step eval io_ok tr [] overlap use_gpu 0 t = Inl ZeroDivisionError"
proof -
  obtain b1 where b1: "vars_after use_gpu tr (batch_vars t) = Some b1"
    using vars_after_None [of use_gpu tr "batch_vars t"] assms(1)
    by (cases "vars_after use_gpu tr (batch_vars t)") auto
  show ?thesis
    using assms unfolding run_epoch_def for_batches_result
    by (simp add: normalize_def save_pictures_def checkpoint_save_def perform_def dump_due_def b1)
qed

text \<open>
  Claim C4. With a validation dataset of no batch and at least one epoch, \<open>train\<close>
  ends in an error and returns no loss history. When the training dataset has a batch
  and the writes of the first epoch succeed, the error is \<open>ZeroDivisionError\<close>, raised
  by the normalization of the first epoch.
\<close>

theorem empty_validation_set:
  assumes "0 < epochs"
  shows "isl (train_loop step eval io_ok tr [] epochs overlap use_gpu n)
       \<and> (tr \<noteq> [] \<and> io_ok 0 (Save_pictures ''train'') \<and> io_ok 0 Checkpoint_save
            \<and> io_ok 0 (Save_pictures ''val'')
          \<longrightarrow> train_loop step eval io_ok tr [] epochs overlap use_gpu n = Inl ZeroDivisionError)"
proof -
  from assms have es: "[0..<nat epochs] = 0 # [1..<nat epochs]"
    by (simp add: upt_conv_Cons)
  have a: "isl (train_loop step eval io_ok tr [] epochs overlap use_gpu n)"
  proof (cases "train_loop step eval io_ok tr [] epochs overlap use_gpu n")
    case (Inl e)
    then show ?thesis by simp
  next
    case (Inr t)
    then obtain t0 where "for_epochs step eval io_ok tr [] overlap use_gpu [0..<nat epochs]
       \<lparr>networks = n, batch_vars = None,
        list_train_gen_loss = [], list_train_disc_loss = [],
        list_val_gen_loss = [], list_val_disc_loss = [], io_log = []\<rparr> = Inr t0"
      by (rule train_loop_Inr)
    from for_epochs_Inr(8) [OF this] es show ?thesis by simp
  qed
  have b: "train_loop step eval io_ok tr [] epochs overlap use_gpu n = Inl ZeroDivisionError"
    if "tr \<noteq> []" "io_ok 0 (Save_pictures ''train'')" "io_ok 0 Checkpoint_save"
       "io_ok 0 (Save_pictures ''val'')"
    unfolding train_loop_def es
    using that by (simp add: first_epoch_empty_validation)
  from a b show ?thesis by blast
qed

theorem empty_validation_set_witness:
  "(0::int) < 3
   \<and> train_loop stub_step stub_eval io_never_fails [blank_batch] [] 3 0 False ([], [])
       = Inl ZeroDivisionError"
proof -
  have "(0::int) < 3" by simp
  from empty_validation_set [OF this, of stub_step stub_eval io_never_fails "[blank_batch]" 0 False
      "([], [])"]
  show ?thesis by (simp add: io_never_fails_def)
qed

lemma first_failure_aborts:
  assumes "tr \<noteq> []" "va \<noteq> []" "e < nat epochs"
    "\<forall>e' < e. \<forall>a' \<in> snd ` set (dumps e'). io_ok e' a'"
    "dumps e = pre @ (e, a) # post" "\<forall>x \<in> set pre. io_ok e (snd x)" "\<not> io_ok e a"
  shows "train_loop step eval io_ok tr va epochs overlap use_gpu n = Inl (OSError e a)"
proof -
  let ?t = "\<lparr>networks = n, batch_vars = None,
        list_train_gen_loss = [], list_train_disc_loss = [],
        list_val_gen_loss = [], list_val_disc_loss = [], io_log = []\<rparr>"
  from assms(3) have es: "[0..<nat epochs] = [0..<e] @ e # [Suc e..<nat epochs]"
    by (metis less_imp_add_positive upt_add_eq_append upt_conv_Cons less_eq_nat.simps(1))
  have "\<forall>e' \<in> set [0..<e]. \<forall>a' \<in> snd ` set (dumps e'). io_ok e' a'"
    using assms(4) by simp
  with assms(1,2) have "\<exists>t1. for_epochs step eval io_ok tr va overlap use_gpu [0..<e] ?t = Inr t1"
    by (rule for_epochs_succeeds)
  then obtain t1 where t1: "for_epochs step eval io_ok tr va overlap use_gpu [0..<e] ?t = Inr t1"
    by blast
  have "run_epoch step eval io_ok tr va overlap use_gpu e t1 = Inl (OSError e a)"
    using assms(1,2,5,6,7) by (rule run_epoch_fails)
  with t1 show ?thesis
    unfolding train_loop_def es for_epochs_append by simp
qed


text \<open>
  Claim C8, as stated, has the trainer log a failed write and go on. In a run of two
  epochs over one training and one validation batch in which the checkpoint cannot be
  written, \<open>train\<close> ends at epoch index \<open>0\<close> with the error of that write.
\<close>

theorem io_failure_counterexample:
  "train_loop stub_step stub_eval all_but_checkpoint_ok [blank_batch] [blank_batch] 2 0 False ([], [])
     = Inl (OSError 0 Checkpoint_save)"
proof -
  have "dumps 0 = [(0, Save_pictures ''train'')] @ (0, Checkpoint_save) # [(0, Save_pictures ''val'')]"
    by (simp add: dumps_def)
  then show ?thesis
    by (rule first_failure_aborts [rotated 4]) (simp_all add: all_but_checkpoint_ok_def)
qed

text \<open>
  Claim C8, amended. A picture dump or checkpoint write that is due and fails aborts
  the run: \<open>train\<close> ends in an error and returns no loss history. When both datasets
  have a batch and every write due before it succeeds, the error is that of the failed
  write.
\<close>

theorem io_failure_aborts:
  assumes "e < nat epochs" "(e, a) \<in> set (dumps e)" "\<not> io_ok e a"
  shows "isl (train_loop step eval io_ok tr va epochs overlap use_gpu n)
       \<and> (tr \<noteq> [] \<and> va \<noteq> []
            \<and> (\<forall>e' < e. \<forall>a' \<in> snd ` set (dumps e'). io_ok e' a')
            \<and> (\<forall>x \<in> set (takeWhile (\<lambda>x. x \<noteq> (e, a)) (dumps e)). io_ok e (snd x))
          \<longrightarrow> train_loop step eval io_ok tr va epochs overlap use_gpu n = Inl (OSError e a))"
proof -
  have a: "isl (train_loop step eval io_ok tr va epochs overlap use_gpu n)"
  proof (cases "train_loop step eval io_ok tr va epochs overlap use_gpu n")
    case (Inl err)
    then show ?thesis by simp
  next
    case (Inr t)
    then obtain t0 where "for_epochs step eval io_ok tr va overlap use_gpu [0..<nat epochs]
       \<lparr>networks = n, batch_vars = None,
        list_train_gen_loss = [], list_train_disc_loss = [],
        list_val_gen_loss = [], list_val_disc_loss = [], io_log = []\<rparr> = Inr t0"
      by (rule train_loop_Inr)
    from for_epochs_Inr(7) [OF this] assms have False by force
    then show ?thesis ..
  qed
  have split: "dumps e = takeWhile (\<lambda>x. x \<noteq> (e, a)) (dumps e) @ (e, a)
                 # tl (dropWhile (\<lambda>x. x \<noteq> (e, a)) (dumps e))"
    using assms(2)
    by (metis (mono_tags, lifting) dropWhile_eq_Nil_conv hd_dropWhile list.collapse takeWhile_dropWhile_id)
  have b: "train_loop step eval io_ok tr va epochs overlap use_gpu n = Inl (OSError e a)"
    if "tr \<noteq> []" "va \<noteq> []" "\<forall>e' < e. \<forall>a' \<in> snd ` set (dumps e'). io_ok e' a'"
       "\<forall>x \<in> set (takeWhile (\<lambda>x. x \<noteq> (e, a)) (dumps e)). io_ok e (snd x)"
    using that(1,2) assms(1) that(3) split that(4) assms(3) by (rule first_failure_aborts)
  from a b show ?thesis by blast
qed

theorem io_failure_aborts_witness:
  "(0::nat) < nat 2 \<and> (0, Checkpoint_save) \<in> set (dumps 0) \<and> \<not> all_but_checkpoint_ok 0 Checkpoint_save
   \<and> train_loop stub_step stub_eval all_but_checkpoint_ok [blank_batch] [blank_batch] 2 0 False ([], [])
       = Inl (OSError 0 Checkpoint_save)"
proof -
  have h: "(0::nat) < nat 2" "(0, Checkpoint_save) \<in> set (dumps 0)"
    "\<not> all_but_checkpoint_ok 0 Checkpoint_save"
    by (simp_all add: dumps_def all_but_checkpoint_ok_def)
  from io_failure_aborts [where e = 0 and epochs = 2 and a = Checkpoint_save
      and io_ok = all_but_checkpoint_ok and step = stub_step and eval = stub_eval
      and tr = "[blank_batch]" and va = "[blank_batch]" and overlap = 0 and use_gpu = False
      and n = "([], [])"] h
  show ?thesis by (simp add: dumps_def all_but_checkpoint_ok_def)
qed

end
